theory Spec2Isabelle
  imports Main "HOL-Library.Word"
begin

section \<open>Data model of the vertical split diff worker\<close>

text \<open>
  The development embeds \<^verbatim>\<open>go/vt/worker/vertical_split_diff.go\<close>. The worker's
  methods are state-passing functions on a record of the worker's fields; every
  collaborator outside that file (topology server, tablet manager client, row-stream
  reader, row differ, Go's regexp package, the context) is a field of an environment
  record \<open>env\<close>, so every theorem holds for whatever those collaborators answer.
\<close>

subsection \<open>Topology and replication data\<close>

text \<open>\<^verbatim>\<open>topo.TabletAlias\<close>: a cell name and a \<^verbatim>\<open>uint32\<close> uid.\<close>

record tablet_alias =
  Cell :: string
  Uid :: "32 word"

text \<open>
  Modelled from the spec: \<^verbatim>\<open>TabletAlias.IsZero\<close> is not in the file; the spec's
  "master identity set" is read as: the alias differs from Go's zero value.
\<close>

definition IsZero :: "tablet_alias \<Rightarrow> bool" where
  "IsZero a = (Cell a = [] \<and> Uid a = 0)"

datatype tablet_type = TYPE_RDONLY | TYPE_SPARE

text \<open>
  Modelled from the spec: a replication position is an "opaque, totally-ordered log
  coordinate", compared by "at least as far as"; natural numbers with \<open>\<le>\<close> stand for it.
\<close>

type_synonym position = nat

record blp_position =
  bp_Uid :: "32 word"
  bp_Position :: position

text \<open>\<^verbatim>\<open>blproto.BlpPositionList\<close>: the \<^verbatim>\<open>Entries\<close> slice.\<close>

type_synonym blp_position_list = "blp_position list"

record source_shard =
  ss_Uid :: "32 word"
  ss_Keyspace :: string
  ss_Shard :: string
  ss_Tables :: "string list"

text \<open>Of \<^verbatim>\<open>topo.KeyspaceInfo\<close> the worker reads only how many served-from records there are.\<close>

record keyspace_info =
  ServedFroms :: "string list"

record shard_info =
  MasterAlias :: tablet_alias
  SourceShards :: "source_shard list"

record tablet_info =
  Alias :: tablet_alias

record table_definition =
  Name :: string
  Columns :: "string list"
  PrimaryKeyColumns :: "string list"

record schema_definition =
  TableDefinitions :: "table_definition list"

text \<open>
  Modelled from the spec: a diff report holds "per-table row counts, throughput,
  mismatch records"; \<^verbatim>\<open>HasDifferences\<close> (not in the file) holds when there is a
  mismatch record. The throughput, a float in the source, is only ever printed.
\<close>

record diff_report =
  processedRows :: int
  processingQPS :: int
  mismatches :: "string list"

definition HasDifferences :: "diff_report \<Rightarrow> bool" where
  "HasDifferences r = (mismatches r \<noteq> [])"

subsection \<open>Errors and formatted messages\<close>

text \<open>
  \<^verbatim>\<open>fmt.Errorf(format, args...)\<close> is kept as the format string of the source with its
  arguments; an error handed back by a collaborator is \<open>External\<close>; the aggregate an
  error recorder returns is \<open>Aggregate\<close>.
\<close>

datatype error =
    Errorf string "fmt_arg list"
  | External string
  | Aggregate "error list"
and fmt_arg =
    ArgStr string
  | ArgErr error
  | ArgAlias tablet_alias
  | ArgUid "32 word"
  | ArgPos position
  | ArgPosList blp_position_list
  | ArgInt int
  | ArgReport diff_report

text \<open>
  A Go call returns normally with a nil or non-nil error, or panics (nil pointer,
  index out of range); a panic is not an error value and unwinds through the callers.
\<close>

datatype outcome = Nil | Err error | Panicked

subsection \<open>The error recorder\<close>

text \<open>
  Modelled from the spec: \<^verbatim>\<open>concurrency.AllErrorRecorder\<close> is not in the file; the
  spec calls it a "thread-safe multi-error collector" whose aggregate is "empty iff"
  nothing was recorded. It is the list of the recorded errors; recording nil records
  nothing.
\<close>

type_synonym error_recorder = "error list"

definition RecordError :: "error option \<Rightarrow> error_recorder \<Rightarrow> error_recorder" where
  "RecordError e rec = (case e of None \<Rightarrow> rec | Some x \<Rightarrow> rec @ [x])"

definition HasErrors :: "error_recorder \<Rightarrow> bool" where
  "HasErrors rec = (rec \<noteq> [])"

definition rec_Error :: "error_recorder \<Rightarrow> error option" where
  "rec_Error rec = (if rec = [] then None else Some (Aggregate rec))"

subsection \<open>The cleaner\<close>

text \<open>
  Modelled from the spec: \<^verbatim>\<open>wrangler.Cleaner\<close> and its helpers are not in the file.
  The spec describes an "ordered, mutation-capable registry of compensating actions",
  each action "named, target-keyed", found "by name+target", "drained exactly once at
  run end". The target is keyed by the tablet alias itself (the source keys it by the
  alias's printed form).
\<close>

datatype cleaner_payload =
    ChangeSlaveTypeAction tablet_type
  | StartSlaveAction
  | StartBlpAction

record cleanup_action =
  ca_name :: string
  ca_target :: tablet_alias
  ca_action :: cleaner_payload

definition ChangeSlaveTypeActionName :: string where
  "ChangeSlaveTypeActionName = ''ChangeSlaveTypeAction''"

definition StartSlaveActionName :: string where
  "StartSlaveActionName = ''StartSlaveAction''"

definition StartBlpActionName :: string where
  "StartBlpActionName = ''StartBlpAction''"

type_synonym cleaner = "cleanup_action list"

definition Record :: "string \<Rightarrow> tablet_alias \<Rightarrow> cleaner_payload \<Rightarrow> cleaner \<Rightarrow> cleaner" where
  "Record n t a c = c @ [\<lparr>ca_name = n, ca_target = t, ca_action = a\<rparr>]"

definition RecordChangeSlaveTypeAction :: "tablet_alias \<Rightarrow> tablet_type \<Rightarrow> cleaner \<Rightarrow> cleaner" where
  "RecordChangeSlaveTypeAction a ty c = Record ChangeSlaveTypeActionName a (ChangeSlaveTypeAction ty) c"

definition RecordStartSlaveAction :: "tablet_info \<Rightarrow> cleaner \<Rightarrow> cleaner" where
  "RecordStartSlaveAction ti c = Record StartSlaveActionName (Alias ti) StartSlaveAction c"

definition RecordStartBlpAction :: "tablet_info \<Rightarrow> cleaner \<Rightarrow> cleaner" where
  "RecordStartBlpAction ti c = Record StartBlpActionName (Alias ti) StartBlpAction c"

definition is_action :: "string \<Rightarrow> tablet_alias \<Rightarrow> cleanup_action \<Rightarrow> bool" where
  "is_action n t a = (ca_name a = n \<and> ca_target a = t)"

text \<open>
  \<^verbatim>\<open>FindChangeSlaveTypeActionByTarget\<close> followed by the assignment
  \<^verbatim>\<open>action.TabletType = topo.TYPE_SPARE\<close> through the returned pointer: the first
  action of that name and target is rewritten in place; \<open>None\<close> when there is none.
\<close>

fun SetChangeSlaveType :: "tablet_alias \<Rightarrow> tablet_type \<Rightarrow> cleaner \<Rightarrow> cleaner option" where
  "SetChangeSlaveType t ty [] = None"
| "SetChangeSlaveType t ty (a # c) =
     (if is_action ChangeSlaveTypeActionName t a
      then Some (a\<lparr>ca_action := ChangeSlaveTypeAction ty\<rparr> # c)
      else map_option ((#) a) (SetChangeSlaveType t ty c))"

text \<open>\<^verbatim>\<open>RemoveActionByName\<close>: the first action of that name and target is removed.\<close>

fun RemoveActionByName :: "string \<Rightarrow> tablet_alias \<Rightarrow> cleaner \<Rightarrow> cleaner option" where
  "RemoveActionByName n t [] = None"
| "RemoveActionByName n t (a # c) =
     (if is_action n t a then Some c
      else map_option ((#) a) (RemoveActionByName n t c))"

text \<open>The error \<^verbatim>\<open>RemoveActionByName\<close> and the finder return when nothing matches.\<close>

definition ErrNoNode :: error where
  "ErrNoNode = External ''node doesn't exist''"


text \<open>
  Modelled from the spec: \<^verbatim>\<open>FindBlpPositionById\<close> is not in the file; the spec has
  it "look up the paused position for this source shard's unit id", and fail when absent.
\<close>

fun FindBlpPositionById :: "blp_position_list \<Rightarrow> 32 word \<Rightarrow> error + blp_position" where
  "FindBlpPositionById [] i = Inl (Errorf ''BlpPosition for id %v not found'' [ArgUid i])"
| "FindBlpPositionById (p # ps) i = (if bp_Uid p = i then Inr p else FindBlpPositionById ps i)"

subsection \<open>The worker and what it does to the outside\<close>

datatype worker_state =
    WorkerStateNotStarted
  | WorkerStateInit
  | WorkerStateFindTargets
  | WorkerStateSyncReplication
  | WorkerStateDiff
  | WorkerStateCleanUp
  | WorkerStateDone
  | WorkerStateError

datatype log_level = LInfo | LWarning | LError

text \<open>The tablet manager calls of the replication barrier, with their arguments.\<close>

datatype rpc =
    StopBlpCall tablet_info
  | StopSlaveMinimumCall tablet_info position
  | RunBlpUntilCall tablet_info blp_position_list
  | StartBlpCall tablet_info

text \<open>
  The worker's visible effects, in the order they happen: state changes, log lines
  (format string of the source and its arguments), the reset of the process-wide
  counters, barrier calls, and the run of the cleaner with the actions it held.
\<close>

datatype event =
    SetStateEv worker_state
  | Logf log_level string "fmt_arg list"
  | ResetVarsEv
  | CallEv rpc
  | CleanUpEv "cleanup_action list"

text \<open>A compiled regular expression: whether it matches the text from one offset to another.\<close>

type_synonym regexp = "string \<Rightarrow> nat \<Rightarrow> nat \<Rightarrow> bool"

datatype query_result_reader = QueryResultReader nat

datatype row_differ = RowDiffer nat

record worker =
  State :: worker_state
  cell :: string
  keyspace :: string
  shard :: string
  excludeTables :: "string list"
  cleaner :: cleaner
  keyspaceInfo :: "keyspace_info option"
  shardInfo :: "shard_info option"
  sourceAlias :: tablet_alias
  destinationAlias :: tablet_alias
  sourceSchemaDefinition :: "schema_definition option"
  destinationSchemaDefinition :: "schema_definition option"
  trace :: "event list"

text \<open>
  The collaborators. A call that returns \<^verbatim>\<open>(value, error)\<close> answers \<open>Inl\<close> the error
  or \<open>Inr\<close> the value; a timeout of the per-call context is one of the errors.
  \<open>ctx_Err n\<close> is what the \<open>n\<close>-th cancellation check of a run finds in the context.
  \<open>SelectWorkerTablet\<close> is the selection (and serving-type change) inside
  \<^verbatim>\<open>FindWorkerTablet\<close>; \<open>CleanUpAction\<close> is the execution of one cleanup action.
\<close>

record env =
  GetKeyspace :: "string \<Rightarrow> error + keyspace_info"
  GetShard :: "string \<Rightarrow> string \<Rightarrow> error + shard_info"
  GetTablet :: "tablet_alias \<Rightarrow> error + tablet_info"
  SelectWorkerTablet :: "string \<Rightarrow> string \<Rightarrow> string \<Rightarrow> error + tablet_alias"
  StopBlp :: "tablet_info \<Rightarrow> error + blp_position_list"
  StopSlaveMinimum :: "tablet_info \<Rightarrow> position \<Rightarrow> error + position"
  RunBlpUntil :: "tablet_info \<Rightarrow> blp_position_list \<Rightarrow> error + position"
  StartBlp :: "tablet_info \<Rightarrow> error option"
  GetSchema :: "tablet_alias \<Rightarrow> string list \<Rightarrow> error + schema_definition"
  regexp_Compile :: "string \<Rightarrow> error + regexp"
  DiffSchema :: "schema_definition \<Rightarrow> schema_definition \<Rightarrow> error list"
  TableScan :: "tablet_alias \<Rightarrow> table_definition \<Rightarrow> error + query_result_reader"
  NewRowDiffer :: "query_result_reader \<Rightarrow> query_result_reader \<Rightarrow> table_definition \<Rightarrow> error + row_differ"
  differ_Go :: "row_differ \<Rightarrow> error + diff_report"
  ctx_Err :: "nat \<Rightarrow> error option"
  CleanUpAction :: "cleanup_action \<Rightarrow> error option"

definition zero_alias :: tablet_alias where
  "zero_alias = \<lparr>Cell = [], Uid = 0\<rparr>"

text \<open>\<^verbatim>\<open>NewVerticalSplitDiffWorker\<close>: a fresh worker with an empty cleaner.\<close>

definition NewVerticalSplitDiffWorker :: "string \<Rightarrow> string \<Rightarrow> string \<Rightarrow> string list \<Rightarrow> worker" where
  "NewVerticalSplitDiffWorker c ks sh ex =
     \<lparr>State = WorkerStateNotStarted, cell = c, keyspace = ks, shard = sh, excludeTables = ex,
      cleaner = [], keyspaceInfo = None, shardInfo = None,
      sourceAlias = zero_alias, destinationAlias = zero_alias,
      sourceSchemaDefinition = None, destinationSchemaDefinition = None, trace = []\<rparr>"

definition emit :: "event \<Rightarrow> worker \<Rightarrow> worker" where
  "emit e w = w\<lparr>trace := trace w @ [e]\<rparr>"

definition SetState :: "worker_state \<Rightarrow> worker \<Rightarrow> worker" where
  "SetState s w = emit (SetStateEv s) (w\<lparr>State := s\<rparr>)"

definition Infof :: "string \<Rightarrow> fmt_arg list \<Rightarrow> worker \<Rightarrow> worker" where
  "Infof f args w = emit (Logf LInfo f args) w"

definition Warningf :: "string \<Rightarrow> fmt_arg list \<Rightarrow> worker \<Rightarrow> worker" where
  "Warningf f args w = emit (Logf LWarning f args) w"

definition Errorf_log :: "string \<Rightarrow> fmt_arg list \<Rightarrow> worker \<Rightarrow> worker" where
  "Errorf_log f args w = emit (Logf LError f args) w"

text \<open>
  Modelled from the spec: \<^verbatim>\<open>checkDone\<close> is not in the file; it is the "cancellation
  check [that] runs between phases": it returns the context's error when the context is
  done at that moment, and nil otherwise.
\<close>

definition checkDone :: "env \<Rightarrow> nat \<Rightarrow> error option" where
  "checkDone env n = ctx_Err env n"

section \<open>The phases\<close>

subsection \<open>init\<close>

definition init :: "env \<Rightarrow> worker \<Rightarrow> outcome \<times> worker" where
  "init env w0 =
    (let w = SetState WorkerStateInit w0 in
     case GetKeyspace env (keyspace w) of
       Inl err \<Rightarrow>
         (Err (Errorf ''cannot read keyspace %v: %v'' [ArgStr (keyspace w), ArgErr err]),
          w\<lparr>keyspaceInfo := None\<rparr>)
     | Inr ki \<Rightarrow>
        (let w = w\<lparr>keyspaceInfo := Some ki\<rparr> in
         if length (ServedFroms ki) = 0
         then (Err (Errorf ''keyspace %v has no KeyspaceServedFrom'' [ArgStr (keyspace w)]), w)
         else
          (case GetShard env (keyspace w) (shard w) of
             Inl err \<Rightarrow>
               (Err (Errorf ''cannot read shard %v/%v: %v''
                       [ArgStr (keyspace w), ArgStr (shard w), ArgErr err]),
                w\<lparr>shardInfo := None\<rparr>)
           | Inr si \<Rightarrow>
              (let w = w\<lparr>shardInfo := Some si\<rparr> in
               if length (SourceShards si) \<noteq> 1
               then (Err (Errorf ''shard %v/%v has bad number of source shards''
                            [ArgStr (keyspace w), ArgStr (shard w)]), w)
               else if length (ss_Tables (hd (SourceShards si))) = 0
               then (Err (Errorf ''shard %v/%v has no tables in source shard[0]''
                            [ArgStr (keyspace w), ArgStr (shard w)]), w)
               else if IsZero (MasterAlias si)
               then (Err (Errorf ''shard %v/%v has no master''
                            [ArgStr (keyspace w), ArgStr (shard w)]), w)
               else (Nil, w)))))"

subsection \<open>findTargets\<close>

text \<open>
  Modelled from the spec: \<^verbatim>\<open>FindWorkerTablet\<close> is not in the file. The spec has it
  select one eligible unit "via an external selector, which also applies a temporary
  serving-type change and pushes its inverse onto the CleanupStack"; the comment at the
  source's step 2 names that inverse: \<^verbatim>\<open>ChangeSlaveType(rdonly)\<close>. On failure it
  returns the zero alias and pushes nothing.
\<close>

definition FindWorkerTablet ::
  "env \<Rightarrow> string \<Rightarrow> string \<Rightarrow> string \<Rightarrow> cleaner \<Rightarrow> (error + tablet_alias) \<times> cleaner" where
  "FindWorkerTablet env c ks sh cl =
     (case SelectWorkerTablet env c ks sh of
        Inl err \<Rightarrow> (Inl err, cl)
      | Inr a \<Rightarrow> (Inr a, RecordChangeSlaveTypeAction a TYPE_RDONLY cl))"

definition findTargets :: "env \<Rightarrow> worker \<Rightarrow> outcome \<times> worker" where
  "findTargets env w0 =
    (let w = SetState WorkerStateFindTargets w0 in
     case FindWorkerTablet env (cell w) (keyspace w) (shard w) (cleaner w) of
       (Inl err, cl) \<Rightarrow>
         (Err (Errorf ''FindWorkerTablet() failed for %v/%v/%v: %v''
                 [ArgStr (cell w), ArgStr (keyspace w), ArgStr (shard w), ArgErr err]),
          w\<lparr>cleaner := cl, destinationAlias := zero_alias\<rparr>)
     | (Inr a, cl) \<Rightarrow>
        (let w = w\<lparr>cleaner := cl, destinationAlias := a\<rparr> in
         case shardInfo w of
           None \<Rightarrow> (Panicked, w)
         | Some si \<Rightarrow>
            (case SourceShards si of
               [] \<Rightarrow> (Panicked, w)
             | ss # _ \<Rightarrow>
                (case FindWorkerTablet env (cell w) (ss_Keyspace ss) (ss_Shard ss) (cleaner w) of
                   (Inl err, cl) \<Rightarrow>
                     (Err (Errorf ''FindWorkerTablet() failed for %v/%v/%v: %v''
                             [ArgStr (cell w), ArgStr (ss_Keyspace ss), ArgStr (ss_Shard ss),
                              ArgErr err]),
                      w\<lparr>cleaner := cl, sourceAlias := zero_alias\<rparr>)
                 | (Inr a, cl) \<Rightarrow> (Nil, w\<lparr>cleaner := cl, sourceAlias := a\<rparr>)))))"


subsection \<open>synchronizeReplication\<close>

text \<open>
  The function is split at the numbered comments of the source; each part ends by
  running the next. \<open>si\<close> is \<^verbatim>\<open>vsdw.shardInfo\<close>, already dereferenced.
\<close>

text \<open>5 - restart filtered replication on destination master.\<close>

definition sync_step5 :: "env \<Rightarrow> shard_info \<Rightarrow> tablet_info \<Rightarrow> worker \<Rightarrow> outcome \<times> worker" where
  "sync_step5 env si masterInfo w0 =
    (let w = Infof ''Restarting filtered replication on master %v'' [ArgAlias (MasterAlias si)] w0;
         w = emit (CallEv (StartBlpCall masterInfo)) w;
         err = StartBlp env masterInfo;
         w = (case RemoveActionByName StartBlpActionName (MasterAlias si) (cleaner w) of
                None \<Rightarrow> Warningf ''Cannot find cleaning action %v/%v: %v''
                          [ArgStr StartBlpActionName, ArgAlias (MasterAlias si), ArgErr ErrNoNode] w
              | Some cl \<Rightarrow> w\<lparr>cleaner := cl\<rparr>)
     in case err of
          Some e \<Rightarrow> (Err (Errorf ''StartBlp on %v failed: %v'' [ArgAlias (MasterAlias si), ArgErr e]), w)
        | None \<Rightarrow> (Nil, w))"

text \<open>4 - wait until the destination tablet is equal or passed that master binlog position.\<close>

definition sync_step4 ::
  "env \<Rightarrow> shard_info \<Rightarrow> tablet_info \<Rightarrow> position \<Rightarrow> worker \<Rightarrow> outcome \<times> worker" where
  "sync_step4 env si masterInfo masterPos w0 =
    (let w = Infof ''Waiting for destination tablet %v to catch up to %v''
               [ArgAlias (destinationAlias w0), ArgPos masterPos] w0 in
     case GetTablet env (destinationAlias w) of
       Inl err \<Rightarrow> (Err err, w)
     | Inr destinationTablet \<Rightarrow>
        (let w = emit (CallEv (StopSlaveMinimumCall destinationTablet masterPos)) w in
         case StopSlaveMinimum env destinationTablet masterPos of
           Inl err \<Rightarrow>
             (Err (Errorf ''StopSlaveMinimum on %v at %v failed: %v''
                     [ArgAlias (destinationAlias w), ArgPos masterPos, ArgErr err]), w)
         | Inr _ \<Rightarrow>
            (let w = w\<lparr>cleaner := RecordStartSlaveAction destinationTablet (cleaner w)\<rparr> in
             case SetChangeSlaveType (destinationAlias w) TYPE_SPARE (cleaner w) of
               None \<Rightarrow>
                 (Err (Errorf ''cannot find ChangeSlaveType action for %v: %v''
                         [ArgAlias (destinationAlias w), ArgErr ErrNoNode]), w)
             | Some cl \<Rightarrow> sync_step5 env si masterInfo (w\<lparr>cleaner := cl\<rparr>))))"

text \<open>3 - ask the master to resume filtered replication up to the new list of positions.\<close>

definition sync_step3 ::
  "env \<Rightarrow> shard_info \<Rightarrow> tablet_info \<Rightarrow> blp_position_list \<Rightarrow> worker \<Rightarrow> outcome \<times> worker" where
  "sync_step3 env si masterInfo stopPositionList w0 =
    (let w = Infof ''Restarting master %v until it catches up to %v''
               [ArgAlias (MasterAlias si), ArgPosList stopPositionList] w0;
         w = emit (CallEv (RunBlpUntilCall masterInfo stopPositionList)) w in
     case RunBlpUntil env masterInfo stopPositionList of
       Inl err \<Rightarrow>
         (Err (Errorf ''RunBlpUntil on %v until %v failed: %v''
                 [ArgAlias (MasterAlias si), ArgPosList stopPositionList, ArgErr err]), w)
     | Inr masterPos \<Rightarrow> sync_step4 env si masterInfo masterPos w)"

text \<open>2 - stop the source tablet at a binlog position higher than the destination master.\<close>

definition sync_step2 ::
  "env \<Rightarrow> shard_info \<Rightarrow> tablet_info \<Rightarrow> blp_position_list \<Rightarrow> worker \<Rightarrow> outcome \<times> worker" where
  "sync_step2 env si masterInfo blpPositionList w =
    (case SourceShards si of
       [] \<Rightarrow> (Panicked, w)
     | ss # _ \<Rightarrow>
        (case FindBlpPositionById blpPositionList (ss_Uid ss) of
           Inl _ \<Rightarrow>
             (Err (Errorf ''no binlog position on the master for Uid %v'' [ArgUid (ss_Uid ss)]), w)
         | Inr pos \<Rightarrow>
            (let w = Infof ''Stopping slave %v at a minimum of %v''
                       [ArgAlias (sourceAlias w), ArgPos (bp_Position pos)] w in
             case GetTablet env (sourceAlias w) of
               Inl err \<Rightarrow> (Err err, w)
             | Inr sourceTablet \<Rightarrow>
                (let w = emit (CallEv (StopSlaveMinimumCall sourceTablet (bp_Position pos))) w in
                 case StopSlaveMinimum env sourceTablet (bp_Position pos) of
                   Inl err \<Rightarrow>
                     (Err (Errorf ''cannot stop slave %v at right binlog position %v: %v''
                             [ArgAlias (sourceAlias w), ArgPos (bp_Position pos), ArgErr err]), w)
                 | Inr stoppedAt \<Rightarrow>
                    (let stopPositionList = [\<lparr>bp_Uid = ss_Uid ss, bp_Position = stoppedAt\<rparr>];
                         w = w\<lparr>cleaner := RecordStartSlaveAction sourceTablet (cleaner w)\<rparr> in
                     case SetChangeSlaveType (sourceAlias w) TYPE_SPARE (cleaner w) of
                       None \<Rightarrow>
                         (Err (Errorf ''cannot find ChangeSlaveType action for %v: %v''
                                 [ArgAlias (sourceAlias w), ArgErr ErrNoNode]), w)
                     | Some cl \<Rightarrow>
                         sync_step3 env si masterInfo stopPositionList (w\<lparr>cleaner := cl\<rparr>))))))"

text \<open>1 - stop the master binlog replication, get its current position.\<close>

definition synchronizeReplication :: "env \<Rightarrow> worker \<Rightarrow> outcome \<times> worker" where
  "synchronizeReplication env w0 =
    (let w = SetState WorkerStateSyncReplication w0 in
     case shardInfo w of
       None \<Rightarrow> (Panicked, w)
     | Some si \<Rightarrow>
        (case GetTablet env (MasterAlias si) of
           Inl err \<Rightarrow>
             (Err (Errorf ''synchronizeReplication: cannot get Tablet record for master %v: %v''
                     [ArgAlias (MasterAlias si), ArgErr err]), w)
         | Inr masterInfo \<Rightarrow>
            (let w = Infof ''Stopping master binlog replication on %v'' [ArgAlias (MasterAlias si)] w;
                 w = emit (CallEv (StopBlpCall masterInfo)) w in
             case StopBlp env masterInfo of
               Inl err \<Rightarrow>
                 (Err (Errorf ''StopBlp on master %v failed: %v''
                         [ArgAlias (MasterAlias si), ArgErr err]), w)
             | Inr blpPositionList \<Rightarrow>
                 sync_step2 env si masterInfo blpPositionList
                   (w\<lparr>cleaner := RecordStartBlpAction masterInfo (cleaner w)\<rparr>))))"


subsection \<open>diff\<close>

text \<open>
  Go's \<^verbatim>\<open>Regexp.MatchString\<close> "reports whether the string s contains any match of
  the regular expression": some stretch of the text, from an offset \<open>i\<close> to an offset
  \<open>j\<close>, is matched.
\<close>

definition MatchString :: "regexp \<Rightarrow> string \<Rightarrow> bool" where
  "MatchString re s =
     list_ex (\<lambda>i. list_ex (\<lambda>j. re s i j) [i..<Suc (length s)]) [0..<Suc (length s)]"

definition outcome_of :: "error option \<Rightarrow> outcome" where
  "outcome_of e = (case e of None \<Rightarrow> Nil | Some x \<Rightarrow> Err x)"

text \<open>The loop that compiles the source shard's table patterns; it returns at the first failure.\<close>

fun compile_tables :: "env \<Rightarrow> string list \<Rightarrow> error + regexp list" where
  "compile_tables env [] = Inr []"
| "compile_tables env (table # ts) =
     (case regexp_Compile env table of
        Inl err \<Rightarrow> Inl (Errorf ''cannot compile regexp %v for table: %v'' [ArgStr table, ArgErr err])
      | Inr re \<Rightarrow>
         (case compile_tables env ts of
            Inl e \<Rightarrow> Inl e
          | Inr res \<Rightarrow> Inr (re # res)))"

text \<open>The inner loop over the compiled patterns: \<^verbatim>\<open>found\<close>, with its \<^verbatim>\<open>break\<close>.\<close>

fun found :: "regexp list \<Rightarrow> string \<Rightarrow> bool" where
  "found [] name = False"
| "found (tableRegexp # res) name =
     (if MatchString tableRegexp name then True else found res name)"

text \<open>The outer loop over the source's table definitions, appending to \<^verbatim>\<open>newSourceTableDefinitions\<close>.\<close>

fun filter_tables ::
  "regexp list \<Rightarrow> table_definition list \<Rightarrow> table_definition list \<Rightarrow> worker \<Rightarrow>
   table_definition list \<times> worker" where
  "filter_tables res [] new w = (new, w)"
| "filter_tables res (tableDefinition # tds) new w =
     (if \<not> found res (Name tableDefinition)
      then filter_tables res tds new
             (Infof ''Removing table %v from source schema'' [ArgStr (Name tableDefinition)] w)
      else filter_tables res tds (new @ [tableDefinition]) w)"

text \<open>
  The body of one table's goroutine, between the semaphore's acquire and its release.
  Where the source logs \<^verbatim>\<open>Errorf(newErr.Error())\<close>, the error's text being the format,
  the log line is \<open>''%v''\<close> with the error as its argument. Closing the readers acts on
  the readers only.
\<close>

definition diff_table ::
  "env \<Rightarrow> table_definition \<Rightarrow> error_recorder \<times> worker \<Rightarrow> error_recorder \<times> worker" where
  "diff_table env tableDefinition s =
    (let rec = fst s;
         w = Infof ''Starting the diff on table %v'' [ArgStr (Name tableDefinition)] (snd s) in
     case TableScan env (sourceAlias w) tableDefinition of
       Inl err \<Rightarrow>
         (let newErr = Errorf ''TableScan(source) failed: %v'' [ArgErr err] in
          (RecordError (Some newErr) rec, Errorf_log ''%v'' [ArgErr newErr] w))
     | Inr sourceQueryResultReader \<Rightarrow>
        (case TableScan env (destinationAlias w) tableDefinition of
           Inl err \<Rightarrow>
             (let newErr = Errorf ''TableScan(destination) failed: %v'' [ArgErr err] in
              (RecordError (Some newErr) rec, Errorf_log ''%v'' [ArgErr newErr] w))
         | Inr destinationQueryResultReader \<Rightarrow>
            (case NewRowDiffer env sourceQueryResultReader destinationQueryResultReader
                    tableDefinition of
               Inl err \<Rightarrow>
                 (let newErr = Errorf ''NewRowDiffer() failed: %v'' [ArgErr err] in
                  (RecordError (Some newErr) rec, Errorf_log ''%v'' [ArgErr newErr] w))
             | Inr differ \<Rightarrow>
                (case differ_Go env differ of
                   Inl err \<Rightarrow> (rec, Errorf_log ''Differ.Go failed: %v'' [ArgErr err] w)
                 | Inr report \<Rightarrow>
                    (if HasDifferences report
                     then (let err = Errorf ''Table %v has differences: %v''
                                       [ArgStr (Name tableDefinition), ArgReport report] in
                           (RecordError (Some err) rec, Errorf_log ''%v'' [ArgErr err] w))
                     else (rec, Infof ''Table %v checks out (%v rows processed, %v qps)''
                                  [ArgStr (Name tableDefinition), ArgInt (processedRows report),
                                   ArgInt (processingQPS report)] w))))))"

text \<open>
  One goroutine is started per table of the destination schema and all are joined. The
  recorder and the logger are synchronised, so what they hold at the join is the same
  under every schedule up to the order of the entries; the model runs the goroutines in
  the order of the tables.
\<close>

fun run_diffs ::
  "env \<Rightarrow> table_definition list \<Rightarrow> error_recorder \<times> worker \<Rightarrow> error_recorder \<times> worker" where
  "run_diffs env [] s = s"
| "run_diffs env (tableDefinition # tds) s = run_diffs env tds (diff_table env tableDefinition s)"

text \<open>The part of \<^verbatim>\<open>diff\<close> after both schemas are there.\<close>

definition diff_tables :: "env \<Rightarrow> worker \<Rightarrow> outcome \<times> worker" where
  "diff_tables env w =
    (case shardInfo w of
       None \<Rightarrow> (Panicked, w)
     | Some si \<Rightarrow>
        (case SourceShards si of
           [] \<Rightarrow> (Panicked, w)
         | ss # _ \<Rightarrow>
            (case compile_tables env (ss_Tables ss) of
               Inl err \<Rightarrow> (Err err, w)
             | Inr tableRegexps \<Rightarrow>
                (case destinationSchemaDefinition w of
                   None \<Rightarrow> (Panicked, w)
                 | Some dst \<Rightarrow>
                    (case sourceSchemaDefinition w of
                       None \<Rightarrow> (Panicked, w)
                     | Some src \<Rightarrow>
                        (let fw = filter_tables tableRegexps (TableDefinitions src) [] w;
                             src = src\<lparr>TableDefinitions := fst fw\<rparr>;
                             w = (snd fw)\<lparr>sourceSchemaDefinition := Some src\<rparr>;
                             w = Infof ''Diffing the schema...'' [] w;
                             rec = DiffSchema env dst src;
                             w = (if HasErrors rec
                                  then Warningf ''Different schemas: %v'' [ArgErr (Aggregate rec)] w
                                  else Infof ''Schema match, good.'' [] w);
                             w = Infof ''Running the diffs...'' [] w;
                             rw = run_diffs env (TableDefinitions dst) (rec, w)
                         in (outcome_of (rec_Error (fst rw)), snd rw)))))))"

text \<open>
  The two schema fetches run in two goroutines joined before the recorder is read; the
  model runs the destination's first.
\<close>

definition diff :: "env \<Rightarrow> worker \<Rightarrow> outcome \<times> worker" where
  "diff env w0 =
    (let w = SetState WorkerStateDiff w0;
         w = Infof ''Gathering schema information...'' [] w;
         rec = [];
         d = GetSchema env (destinationAlias w) (excludeTables w);
         w = w\<lparr>destinationSchemaDefinition := (case d of Inl _ \<Rightarrow> None | Inr sd \<Rightarrow> Some sd)\<rparr>;
         rec = RecordError (case d of Inl err \<Rightarrow> Some err | Inr _ \<Rightarrow> None) rec;
         w = Infof ''Got schema from destination %v'' [ArgAlias (destinationAlias w)] w;
         s = GetSchema env (sourceAlias w) (excludeTables w);
         w = w\<lparr>sourceSchemaDefinition := (case s of Inl _ \<Rightarrow> None | Inr sd \<Rightarrow> Some sd)\<rparr>;
         rec = RecordError (case s of Inl err \<Rightarrow> Some err | Inr _ \<Rightarrow> None) rec;
         w = Infof ''Got schema from source %v'' [ArgAlias (sourceAlias w)] w
     in if HasErrors rec then (outcome_of (rec_Error rec), w) else diff_tables env w)"

section \<open>The state machine\<close>

definition run :: "env \<Rightarrow> worker \<Rightarrow> outcome \<times> worker" where
  "run env w0 =
    (case init env w0 of
       (Panicked, w) \<Rightarrow> (Panicked, w)
     | (Err err, w) \<Rightarrow> (Err (Errorf ''init() failed: %v'' [ArgErr err]), w)
     | (Nil, w) \<Rightarrow>
        (case checkDone env 0 of
           Some err \<Rightarrow> (Err err, w)
         | None \<Rightarrow>
            (case findTargets env w of
               (Panicked, w) \<Rightarrow> (Panicked, w)
             | (Err err, w) \<Rightarrow> (Err (Errorf ''findTargets() failed: %v'' [ArgErr err]), w)
             | (Nil, w) \<Rightarrow>
                (case checkDone env 1 of
                   Some err \<Rightarrow> (Err err, w)
                 | None \<Rightarrow>
                    (case synchronizeReplication env w of
                       (Panicked, w) \<Rightarrow> (Panicked, w)
                     | (Err err, w) \<Rightarrow>
                         (Err (Errorf ''synchronizeReplication() failed: %v'' [ArgErr err]), w)
                     | (Nil, w) \<Rightarrow>
                        (case checkDone env 2 of
                           Some err \<Rightarrow> (Err err, w)
                         | None \<Rightarrow>
                            (case diff env w of
                               (Panicked, w) \<Rightarrow> (Panicked, w)
                             | (Err err, w) \<Rightarrow> (Err (Errorf ''diff() failed: %v'' [ArgErr err]), w)
                             | (Nil, w) \<Rightarrow> (Nil, w))))))))"

text \<open>
  Modelled from the spec: \<^verbatim>\<open>Cleaner.CleanUp\<close> is not in the file. The spec has the
  stack "drained exactly once at run end, then discarded": every action is executed,
  last pushed first, the failures are aggregated, and the cleaner is left empty.
\<close>

definition CleanUp :: "env \<Rightarrow> cleaner \<Rightarrow> error option" where
  "CleanUp env cl = rec_Error (List.map_filter (CleanUpAction env) (rev cl))"

text \<open>
  \<^verbatim>\<open>Run\<close>: a panic of the inner run unwinds through it (nothing recovers); otherwise
  the cleaner runs and the terminal state is set.
\<close>

definition Run :: "env \<Rightarrow> worker \<Rightarrow> outcome \<times> worker" where
  "Run env w0 =
    (case run env (emit ResetVarsEv w0) of
       (Panicked, w) \<Rightarrow> (Panicked, w)
     | (r, w) \<Rightarrow>
        (let err = (case r of Err e \<Rightarrow> Some e | _ \<Rightarrow> None);
             w = SetState WorkerStateCleanUp w;
             cerr = CleanUp env (cleaner w);
             w = emit (CleanUpEv (cleaner w)) (w\<lparr>cleaner := []\<rparr>);
             w = (case cerr of
                    Some ce \<Rightarrow>
                      (if err \<noteq> None
                       then Errorf_log ''CleanUp failed in addition to job error: %v'' [ArgErr ce] w
                       else w)
                  | None \<Rightarrow> w);
             err = (case cerr of
                      Some ce \<Rightarrow> (if err \<noteq> None then err else cerr)
                    | None \<Rightarrow> err)
         in case err of
              Some e \<Rightarrow> (Err e, SetState WorkerStateError w)
            | None \<Rightarrow> (Nil, SetState WorkerStateDone w)))"


section \<open>Reading the trace\<close>

text \<open>The cleaner runs recorded in a trace, each with the actions it was handed.\<close>

fun cleanups :: "event list \<Rightarrow> cleanup_action list list" where
  "cleanups [] = []"
| "cleanups (CleanUpEv cl # es) = cl # cleanups es"
| "cleanups (_ # es) = cleanups es"

text \<open>The barrier calls recorded in a trace.\<close>

fun calls :: "event list \<Rightarrow> rpc list" where
  "calls [] = []"
| "calls (CallEv c # es) = c # calls es"
| "calls (_ # es) = calls es"

text \<open>The states a trace goes through.\<close>

fun states :: "event list \<Rightarrow> worker_state list" where
  "states [] = []"
| "states (SetStateEv s # es) = s # states es"
| "states (_ # es) = states es"

text \<open>The arguments of the log lines of one level and one format string, in order.\<close>

fun lines :: "log_level \<Rightarrow> string \<Rightarrow> event list \<Rightarrow> fmt_arg list list" where
  "lines l f [] = []"
| "lines l f (Logf l' f' args # es) =
     (if l' = l \<and> f' = f then args # lines l f es else lines l f es)"
| "lines l f (_ # es) = lines l f es"

text \<open>What the goroutine of one table adds to the recorder.\<close>

definition recorded :: "env \<Rightarrow> worker \<Rightarrow> table_definition \<Rightarrow> error list" where
  "recorded env w td = fst (diff_table env td ([], w))"

definition blp_actions :: "tablet_alias \<Rightarrow> cleaner \<Rightarrow> nat" where
  "blp_actions m cl = length (filter (is_action StartBlpActionName m) cl)"

section \<open>Admission of the table goroutines\<close>

text \<open>
  Modelled from the spec: \<^verbatim>\<open>sync2.Semaphore\<close> is not in the file. The spec has "a
  counting semaphore acquired before comparison and released after", with "at most a
  fixed number (8)" of holders: \<^verbatim>\<open>NewSemaphore(8, 0)\<close> has eight free slots and no
  timeout, \<^verbatim>\<open>Acquire\<close> takes a slot and blocks while none is free, \<^verbatim>\<open>Release\<close> gives
  one back.

  The loop at the end of \<^verbatim>\<open>diff\<close> and its goroutines are a transition system. A
  goroutine is \<open>Spawned\<close> until its \<^verbatim>\<open>sem.Acquire()\<close> returns, \<open>Comparing\<close> until its
  deferred \<^verbatim>\<open>sem.Release()\<close>, \<open>Released\<close> until its deferred \<^verbatim>\<open>wg.Done()\<close>, then
  \<open>Joined\<close>. The main goroutine launches one goroutine per pending table
  (\<^verbatim>\<open>wg.Add(1); go func\<close>), then waits in \<^verbatim>\<open>wg.Wait()\<close> and returns.
\<close>

datatype task_pc = Spawned | Comparing | Released | Joined

record pipeline =
  pending :: "table_definition list"
  tasks :: "(table_definition \<times> task_pc) list"
  wg :: nat
  sem :: nat
  returned :: bool

definition start :: "table_definition list \<Rightarrow> pipeline" where
  "start tds = \<lparr>pending = tds, tasks = [], wg = 0, sem = 8, returned = False\<rparr>"

datatype action = Launch | Acquire nat | Release nat | Done nat | WaitReturn

definition set_pc :: "nat \<Rightarrow> task_pc \<Rightarrow> pipeline \<Rightarrow> pipeline" where
  "set_pc i pc p = p\<lparr>tasks := (tasks p)[i := (fst (tasks p ! i), pc)]\<rparr>"

definition at_pc :: "nat \<Rightarrow> task_pc \<Rightarrow> pipeline \<Rightarrow> bool" where
  "at_pc i pc p = (i < length (tasks p) \<and> snd (tasks p ! i) = pc)"

text \<open>One step of one goroutine; \<open>None\<close> when that goroutine cannot take the step now.\<close>

fun step :: "action \<Rightarrow> pipeline \<Rightarrow> pipeline option" where
  "step Launch p =
     (case pending p of
        [] \<Rightarrow> None
      | td # tds \<Rightarrow>
          (if returned p then None
           else Some (p\<lparr>pending := tds, wg := wg p + 1, tasks := tasks p @ [(td, Spawned)]\<rparr>)))"
| "step (Acquire i) p =
     (if at_pc i Spawned p \<and> 0 < sem p
      then Some (set_pc i Comparing (p\<lparr>sem := sem p - 1\<rparr>))
      else None)"
| "step (Release i) p =
     (if at_pc i Comparing p
      then Some (set_pc i Released (p\<lparr>sem := sem p + 1\<rparr>))
      else None)"
| "step (Done i) p =
     (if at_pc i Released p
      then Some (set_pc i Joined (p\<lparr>wg := wg p - 1\<rparr>))
      else None)"
| "step WaitReturn p =
     (if pending p = [] \<and> wg p = 0 \<and> \<not> returned p
      then Some (p\<lparr>returned := True\<rparr>)
      else None)"

text \<open>A schedule is the list of the steps taken, in order.\<close>

fun exec :: "action list \<Rightarrow> pipeline \<Rightarrow> pipeline option" where
  "exec [] p = Some p"
| "exec (a # as) p = (case step a p of None \<Rightarrow> None | Some p' \<Rightarrow> exec as p')"

definition count_pc :: "task_pc \<Rightarrow> pipeline \<Rightarrow> nat" where
  "count_pc pc p = length (filter (\<lambda>t. snd t = pc) (tasks p))"

section \<open>A concrete cluster\<close>

text \<open>
  A destination shard split off a source shard by the pattern \<open>user\<close>, with every
  collaborator answering successfully. A pattern without metacharacters compiles to the
  expression that matches exactly its own text; \<open>(\<close> does not compile.
\<close>

definition master_alias :: tablet_alias where
  "master_alias = \<lparr>Cell = ''c1'', Uid = 1\<rparr>"

definition src_alias :: tablet_alias where
  "src_alias = \<lparr>Cell = ''c1'', Uid = 2\<rparr>"

definition dst_alias :: tablet_alias where
  "dst_alias = \<lparr>Cell = ''c1'', Uid = 3\<rparr>"

definition literal :: "string \<Rightarrow> regexp" where
  "literal p s i j = (j = i + length p \<and> j \<le> length s \<and> take (length p) (drop i s) = p)"

definition tbl :: "string \<Rightarrow> table_definition" where
  "tbl n = \<lparr>Name = n, Columns = [''id''], PrimaryKeyColumns = [''id'']\<rparr>"

definition source_shard0 :: source_shard where
  "source_shard0 = \<lparr>ss_Uid = 7, ss_Keyspace = ''src_ks'', ss_Shard = ''0'', ss_Tables = [''user'']\<rparr>"

definition shard0 :: shard_info where
  "shard0 = \<lparr>MasterAlias = master_alias, SourceShards = [source_shard0]\<rparr>"

definition src_schema :: schema_definition where
  "src_schema = \<lparr>TableDefinitions = [tbl ''user'', tbl ''product'', tbl ''user_extra'']\<rparr>"

definition dst_schema :: schema_definition where
  "dst_schema = \<lparr>TableDefinitions = [tbl ''user'', tbl ''user_extra'']\<rparr>"

definition cluster :: env where
  "cluster =
    \<lparr>GetKeyspace = (\<lambda>ks. Inr \<lparr>ServedFroms = [''master'']\<rparr>),
     GetShard = (\<lambda>ks sh. Inr shard0),
     GetTablet = (\<lambda>a. Inr \<lparr>Alias = a\<rparr>),
     SelectWorkerTablet = (\<lambda>c ks sh. Inr (if ks = ''src_ks'' then src_alias else dst_alias)),
     StopBlp = (\<lambda>t. Inr [\<lparr>bp_Uid = 7, bp_Position = 100\<rparr>]),
     StopSlaveMinimum = (\<lambda>t p. Inr (p + 5)),
     RunBlpUntil = (\<lambda>t l. Inr 230),
     StartBlp = (\<lambda>t. None),
     GetSchema = (\<lambda>a ex. Inr (if a = src_alias then src_schema else dst_schema)),
     regexp_Compile = (\<lambda>p. if p = ''('' then Inl (External ''missing closing )'') else Inr (literal p)),
     DiffSchema = (\<lambda>d s. if map Name (TableDefinitions d) = map Name (TableDefinitions s) then []
                         else [External ''schemas differ'']),
     TableScan = (\<lambda>a td. Inr (QueryResultReader 0)),
     NewRowDiffer = (\<lambda>s d td. Inr (RowDiffer 0)),
     differ_Go = (\<lambda>d. Inr \<lparr>processedRows = 10, processingQPS = 5, mismatches = []\<rparr>),
     ctx_Err = (\<lambda>n. None),
     CleanUpAction = (\<lambda>a. None)\<rparr>"

definition worker0 :: worker where
  "worker0 = NewVerticalSplitDiffWorker ''c1'' ''dst_ks'' ''0'' []"

text \<open>The worker as \<open>init\<close> and \<open>findTargets\<close> leave its fields on this cluster.\<close>

definition ready_worker :: worker where
  "ready_worker =
     worker0\<lparr>shardInfo := Some shard0, sourceAlias := src_alias, destinationAlias := dst_alias\<rparr>"

text \<open>The same cluster when the schema check reports a difference and every table matches.\<close>

definition mismatch_cluster :: env where
  "mismatch_cluster = cluster\<lparr>DiffSchema := (\<lambda>d s. [External ''schemas differ''])\<rparr>"

text \<open>The same worker when the second pattern of its source shard does not compile.\<close>

definition bad_pattern_shard :: source_shard where
  "bad_pattern_shard = source_shard0\<lparr>ss_Tables := [''user'', ''('']\<rparr>"

definition bad_pattern_worker :: worker where
  "bad_pattern_worker =
     ready_worker\<lparr>shardInfo := Some (shard0\<lparr>SourceShards := [bad_pattern_shard]\<rparr>)\<rparr>"

text \<open>
  The same cluster with five tables on both sides, one for each way a table's goroutine
  can end: the source's row stream does not open, the destination's does not, the differ
  cannot be built, the report has a mismatch, the table checks out.
\<close>

definition five_tables :: schema_definition where
  "five_tables =
     \<lparr>TableDefinitions = [tbl ''user_a'', tbl ''user_b'', tbl ''user_c'', tbl ''user_d'', tbl ''user_e'']\<rparr>"

definition mismatch_report :: diff_report where
  "mismatch_report = \<lparr>processedRows = 10, processingQPS = 5, mismatches = [''row 3'']\<rparr>"

definition failures_cluster :: env where
  "failures_cluster =
     cluster\<lparr>GetSchema := (\<lambda>a ex. Inr five_tables),
             TableScan := (\<lambda>a td. if a = src_alias \<and> Name td = ''user_a''
                                   then Inl (External ''source scan failed'')
                                   else if a = dst_alias \<and> Name td = ''user_b''
                                   then Inl (External ''destination scan failed'')
                                   else Inr (QueryResultReader 0)),
             NewRowDiffer := (\<lambda>s d td. if Name td = ''user_c''
                                        then Inl (External ''no primary key'')
                                        else if Name td = ''user_d'' then Inr (RowDiffer 1)
                                        else Inr (RowDiffer 0)),
             differ_Go := (\<lambda>d. if d = RowDiffer 1 then Inr mismatch_report
                                else Inr \<lparr>processedRows = 10, processingQPS = 5, mismatches = []\<rparr>)\<rparr>"

text \<open>The same cluster when reading the rows fails during the comparison.\<close>

definition read_failure_cluster :: env where
  "read_failure_cluster = cluster\<lparr>differ_Go := (\<lambda>d. Inl (External ''read failed''))\<rparr>"

text \<open>The same cluster when the final resume of filtered replication fails.\<close>

definition resume_failure_cluster :: env where
  "resume_failure_cluster = cluster\<lparr>StartBlp := (\<lambda>t. Some (External ''resume failed''))\<rparr>"

text \<open>The same cluster when the context is cancelled while \<open>findTargets\<close> runs.\<close>

definition cancelled_cluster :: env where
  "cancelled_cluster =
     cluster\<lparr>ctx_Err := (\<lambda>n. if n = 0 then None else Some (External ''context canceled''))\<rparr>"

text \<open>What every reachable state of the pipeline satisfies.\<close>

definition pipeline_inv :: "table_definition list \<Rightarrow> pipeline \<Rightarrow> bool" where
  "pipeline_inv tds p =
     (sem p + count_pc Comparing p = 8 \<and>
      wg p + count_pc Joined p = length (tasks p) \<and>
      map fst (tasks p) @ pending p = tds \<and>
      (returned p \<longrightarrow> pending p = [] \<and> wg p = 0))"

text \<open>The same cluster when restarting replication on a tablet fails during cleanup.\<close>

definition cleanup_failure_cluster :: env where
  "cleanup_failure_cluster =
     cluster\<lparr>CleanUpAction := (\<lambda>a. if ca_name a = StartSlaveActionName \<and> ca_target a = src_alias
                                      then Some (External ''cannot start slave'') else None)\<rparr>"

text \<open>The same cluster when both the final resume and that cleanup action fail.\<close>

definition double_failure_cluster :: env where
  "double_failure_cluster =
     cleanup_failure_cluster\<lparr>StartBlp := (\<lambda>t. Some (External ''resume failed''))\<rparr>"

text \<open>What the run returns on that cluster.\<close>

definition resume_error :: error where
  "resume_error = Errorf ''synchronizeReplication() failed: %v''
       [ArgErr (Errorf ''StartBlp on %v failed: %v'' [ArgAlias master_alias, ArgErr (External ''resume failed'')])]"

text \<open>The master of the destination shard on this cluster.\<close>

definition master_info :: tablet_info where
  "master_info = \<lparr>Alias = master_alias\<rparr>"

text \<open>The worker as \<open>init\<close> and \<open>findTargets\<close> leave it on this cluster.\<close>

definition found_worker :: worker where
  "found_worker = snd (findTargets cluster (snd (init cluster worker0)))"

text \<open>
  What step 5 of \<open>synchronizeReplication\<close> returns once the cleaner has been
  updated: nil, or the error of \<^verbatim>\<open>StartBlp\<close> wrapped.
\<close>

definition resume_outcome :: "env \<Rightarrow> shard_info \<Rightarrow> tablet_info \<Rightarrow> outcome" where
  "resume_outcome env si mi =
     (case StartBlp env mi of
        None \<Rightarrow> Nil
      | Some e \<Rightarrow> Err (Errorf ''StartBlp on %v failed: %v'' [ArgAlias (MasterAlias si), ArgErr e]))"

section \<open>Properties\<close>

lemmas eff_defs = emit_def SetState_def Infof_def Warningf_def Errorf_log_def

subsection \<open>init\<close>

text \<open>
  Claim C4. Whatever happens, \<open>init\<close> leaves the cleaner as it found it. When the
  keyspace and shard records are readable and the shard has exactly one source shard,
  \<open>init\<close> returns nil exactly when the keyspace has a served-from record, the source
  shard has a table pattern and the master alias is set; otherwise it returns the error
  of the first of these three checks that fails, in the order of the source.
\<close>

theorem init_preconditions:
  "cleaner (snd (init env w)) = cleaner w \<and>
   (GetKeyspace env (keyspace w) = Inr ki \<longrightarrow>
    GetShard env (keyspace w) (shard w) = Inr si \<longrightarrow>
    length (SourceShards si) = 1 \<longrightarrow>
      (fst (init env w) = Nil \<longleftrightarrow>
         ServedFroms ki \<noteq> [] \<and> ss_Tables (hd (SourceShards si)) \<noteq> [] \<and> \<not> IsZero (MasterAlias si)) \<and>
      (ServedFroms ki = [] \<longrightarrow>
         fst (init env w) = Err (Errorf ''keyspace %v has no KeyspaceServedFrom'' [ArgStr (keyspace w)])) \<and>
      (ServedFroms ki \<noteq> [] \<longrightarrow> ss_Tables (hd (SourceShards si)) = [] \<longrightarrow>
         fst (init env w) = Err (Errorf ''shard %v/%v has no tables in source shard[0]''
                                   [ArgStr (keyspace w), ArgStr (shard w)])) \<and>
      (ServedFroms ki \<noteq> [] \<longrightarrow> ss_Tables (hd (SourceShards si)) \<noteq> [] \<longrightarrow> IsZero (MasterAlias si) \<longrightarrow>
         fst (init env w) = Err (Errorf ''shard %v/%v has no master''
                                   [ArgStr (keyspace w), ArgStr (shard w)])))"
  by (simp add: init_def Let_def eff_defs split: sum.splits)

theorem init_preconditions_witness:
  "GetKeyspace cluster (keyspace worker0) = Inr \<lparr>ServedFroms = [''master'']\<rparr> \<and>
   GetShard cluster (keyspace worker0) (shard worker0) = Inr shard0 \<and>
   length (SourceShards shard0) = 1 \<and>
   fst (init cluster worker0) = Nil \<and> cleaner (snd (init cluster worker0)) = []"
  using init_preconditions [of cluster worker0 "\<lparr>ServedFroms = [''master'']\<rparr>" shard0]
  by (simp add: cluster_def worker0_def NewVerticalSplitDiffWorker_def IsZero_def master_alias_def
        shard0_def source_shard0_def)

subsection \<open>Admission control\<close>

lemma filter_update_length:
  "i < length xs \<Longrightarrow>
   length (filter P (xs[i := y])) + (if P (xs ! i) then 1 else 0) =
   length (filter P xs) + (if P y then 1 else 0)"
proof (induction xs arbitrary: i)
  case Nil
  then show ?case by simp
next
  case (Cons x xs)
  show ?case
  proof (cases i)
    case 0
    then show ?thesis by simp
  next
    case (Suc k)
    with Cons.prems have "k < length xs" by simp
    from Cons.IH [OF this] Suc show ?thesis by simp
  qed
qed

lemma count_pc_set_pc:
  "at_pc i old p \<Longrightarrow>
   count_pc pc (set_pc i new p) + (if old = pc then 1 else 0) =
   count_pc pc p + (if new = pc then 1 else 0)"
  using filter_update_length [of i "tasks p" "\<lambda>t. snd t = pc" "(fst (tasks p ! i), new)"]
  by (simp add: count_pc_def set_pc_def at_pc_def)

lemma map_update_same: "(map f xs)[i := f (xs ! i)] = map f xs"
  by (induction xs arbitrary: i) (auto split: nat.splits)

lemma map_fst_set_pc: "map fst (tasks (set_pc i pc p)) = map fst (tasks p)"
  by (simp add: set_pc_def map_update map_update_same)

lemma set_pc_fields [simp]:
  "sem (set_pc i pc p) = sem p" "wg (set_pc i pc p) = wg p"
  "pending (set_pc i pc p) = pending p" "returned (set_pc i pc p) = returned p"
  "length (tasks (set_pc i pc p)) = length (tasks p)"
  by (simp_all add: set_pc_def)

lemma count_pc_fields [simp]:
  "count_pc pc (p\<lparr>sem := s\<rparr>) = count_pc pc p"
  "count_pc pc (p\<lparr>wg := n\<rparr>) = count_pc pc p"
  "at_pc i pc (p\<lparr>sem := s\<rparr>) = at_pc i pc p"
  "at_pc i pc (p\<lparr>wg := n\<rparr>) = at_pc i pc p"
  by (simp_all add: count_pc_def at_pc_def)

lemma count_pc_le: "count_pc pc p \<le> length (tasks p)"
  by (simp add: count_pc_def)

lemma inv_start: "pipeline_inv tds (start tds)"
  by (simp add: pipeline_inv_def start_def count_pc_def)

lemma inv_step:
  assumes "pipeline_inv tds p" and "step a p = Some p'"
  shows "pipeline_inv tds p'"
proof (cases a)
  case Launch
  with assms show ?thesis
    by (auto simp: pipeline_inv_def count_pc_def split: list.splits if_splits)
next
  case (Acquire i)
  with assms have at: "at_pc i Spawned p" and pos: "0 < sem p"
    and p': "p' = set_pc i Comparing (p\<lparr>sem := sem p - 1\<rparr>)"
    by (auto split: if_splits)
  from at have at': "at_pc i Spawned (p\<lparr>sem := sem p - 1\<rparr>)" by simp
  from count_pc_set_pc [OF at', of Comparing Comparing] count_pc_set_pc [OF at', of Joined Comparing]
    assms(1) pos p' map_fst_set_pc [of i Comparing "p\<lparr>sem := sem p - 1\<rparr>"]
  show ?thesis by (simp add: pipeline_inv_def)
next
  case (Release i)
  with assms have at: "at_pc i Comparing p"
    and p': "p' = set_pc i Released (p\<lparr>sem := sem p + 1\<rparr>)"
    by (auto split: if_splits)
  from at have at': "at_pc i Comparing (p\<lparr>sem := sem p + 1\<rparr>)" by simp
  from count_pc_set_pc [OF at', of Comparing Released] count_pc_set_pc [OF at', of Joined Released]
    assms(1) p' map_fst_set_pc [of i Released "p\<lparr>sem := sem p + 1\<rparr>"]
  show ?thesis by (simp add: pipeline_inv_def)
next
  case (Done i)
  with assms have at: "at_pc i Released p"
    and p': "p' = set_pc i Joined (p\<lparr>wg := wg p - 1\<rparr>)"
    by (auto split: if_splits)
  from at have at': "at_pc i Released (p\<lparr>wg := wg p - 1\<rparr>)" by simp
  from at have "tasks p ! i \<in> set (tasks p)" and "snd (tasks p ! i) \<noteq> Joined"
    by (simp_all add: at_pc_def)
  then have "count_pc Joined p < length (tasks p)"
    unfolding count_pc_def by (rule length_filter_less)
  with assms(1) have pos: "0 < wg p" by (simp add: pipeline_inv_def)
  from count_pc_set_pc [OF at', of Comparing Joined] count_pc_set_pc [OF at', of Joined Joined]
    assms(1) p' pos map_fst_set_pc [of i Joined "p\<lparr>wg := wg p - 1\<rparr>"]
  show ?thesis by (auto simp add: pipeline_inv_def)
next
  case WaitReturn
  with assms show ?thesis
    by (auto simp: pipeline_inv_def count_pc_def split: if_splits)
qed


lemma inv_exec: "pipeline_inv tds p \<Longrightarrow> exec sched p = Some p' \<Longrightarrow> pipeline_inv tds p'"
proof (induction sched arbitrary: p)
  case Nil
  then show ?case by simp
next
  case (Cons a sched)
  then show ?case by (auto split: option.splits dest: inv_step)
qed

lemma all_joined:
  assumes "count_pc Joined p = length (tasks p)"
  shows "list_all (\<lambda>t. snd t = Joined) (tasks p)"
proof -
  have "filter (\<lambda>t. snd t = Joined) (tasks p) = tasks p"
    using assms unfolding count_pc_def by (metis length_filter_less filter_True less_irrefl)
  then show ?thesis by (simp add: filter_id_conv list_all_iff)
qed

text \<open>
  Claim C5. Under every schedule of the main goroutine and the table goroutines, at most
  8 goroutines are between their acquire and their release, for any number of tables (20
  among them); and once \<^verbatim>\<open>wg.Wait()\<close> has returned, a goroutine was launched for every
  table of the destination schema and each of them has joined.
\<close>

theorem bounded_diff_pipeline:
  "exec sched (start tds) = Some p \<Longrightarrow>
   count_pc Comparing p \<le> 8 \<and>
   (returned p \<longrightarrow> map fst (tasks p) = tds \<and> list_all (\<lambda>t. snd t = Joined) (tasks p))"
proof -
  assume "exec sched (start tds) = Some p"
  with inv_start have i: "pipeline_inv tds p" by (rule inv_exec)
  then have "count_pc Comparing p \<le> 8" by (simp add: pipeline_inv_def)
  moreover have "map fst (tasks p) = tds \<and> list_all (\<lambda>t. snd t = Joined) (tasks p)" if "returned p"
    using i that all_joined [of p] by (auto simp add: pipeline_inv_def)
  ultimately show ?thesis by blast
qed


theorem bounded_diff_pipeline_witness:
  "exec (replicate 20 Launch @ map Acquire [0..<8]) (start (replicate 20 (tbl ''t''))) \<noteq> None \<and>
   count_pc Comparing
     (the (exec (replicate 20 Launch @ map Acquire [0..<8]) (start (replicate 20 (tbl ''t''))))) \<le> 8 \<and>
   exec (replicate 20 Launch @ map Acquire [0..<9]) (start (replicate 20 (tbl ''t''))) = None"
proof -
  let ?r = "exec (replicate 20 Launch @ map Acquire [0..<8]) (start (replicate 20 (tbl ''t'')))"
  have ne: "?r \<noteq> None" by code_simp
  then obtain p where p: "?r = Some p" by blast
  have blocked: "exec (replicate 20 Launch @ map Acquire [0..<9]) (start (replicate 20 (tbl ''t''))) = None"
    by code_simp
  from bounded_diff_pipeline [OF p] p ne blocked show ?thesis by simp
qed

subsection \<open>Reading traces across the phases\<close>

lemma cleanups_append [simp]: "cleanups (xs @ ys) = cleanups xs @ cleanups ys"
  by (induction xs rule: cleanups.induct) simp_all

lemma calls_append [simp]: "calls (xs @ ys) = calls xs @ calls ys"
  by (induction xs rule: calls.induct) simp_all

lemma states_append [simp]: "states (xs @ ys) = states xs @ states ys"
  by (induction xs rule: states.induct) simp_all

lemma lines_append [simp]: "lines l f (xs @ ys) = lines l f xs @ lines l f ys"
  by (induction l f xs rule: lines.induct) simp_all

lemma init_frame:
  "trace (snd (init env w)) = trace w @ [SetStateEv WorkerStateInit]"
  "sourceAlias (snd (init env w)) = sourceAlias w"
  "destinationAlias (snd (init env w)) = destinationAlias w"
  "cleaner (snd (init env w)) = cleaner w"
  by (simp_all add: init_def Let_def eff_defs split: sum.splits)

lemma init_Nil:
  "init env w = (Nil, w') \<Longrightarrow> \<exists>si ss. shardInfo w' = Some si \<and> SourceShards si = [ss]"
  by (auto simp add: init_def Let_def eff_defs length_Suc_conv split: sum.splits if_splits)

lemma init_not_Panicked: "fst (init env w) \<noteq> Panicked"
  by (simp add: init_def Let_def eff_defs split: sum.splits)

lemma findTargets_frame:
  "trace (snd (findTargets env w)) = trace w @ [SetStateEv WorkerStateFindTargets]"
  "shardInfo (snd (findTargets env w)) = shardInfo w"
  by (simp_all add: findTargets_def FindWorkerTablet_def Let_def eff_defs
        split: sum.splits option.splits list.splits prod.splits)

lemma findTargets_not_Panicked:
  "shardInfo w = Some si \<Longrightarrow> SourceShards si = [ss] \<Longrightarrow> fst (findTargets env w) \<noteq> Panicked"
  by (simp add: findTargets_def FindWorkerTablet_def Let_def eff_defs
        split: sum.splits option.splits list.splits prod.splits)


lemmas sync_splits = sum.splits option.splits list.splits

lemma step5_frame [simp]:
  "cleanups (trace (snd (sync_step5 env si mi w))) = cleanups (trace w)"
  "states (trace (snd (sync_step5 env si mi w))) = states (trace w)"
  "shardInfo (snd (sync_step5 env si mi w)) = shardInfo w"
  "sourceAlias (snd (sync_step5 env si mi w)) = sourceAlias w"
  "destinationAlias (snd (sync_step5 env si mi w)) = destinationAlias w"
  "excludeTables (snd (sync_step5 env si mi w)) = excludeTables w"
  "fst (sync_step5 env si mi w) \<noteq> Panicked"
  by (simp_all add: sync_step5_def Let_def eff_defs split: sync_splits)

lemma step4_frame [simp]:
  "cleanups (trace (snd (sync_step4 env si mi mp w))) = cleanups (trace w)"
  "states (trace (snd (sync_step4 env si mi mp w))) = states (trace w)"
  "shardInfo (snd (sync_step4 env si mi mp w)) = shardInfo w"
  "sourceAlias (snd (sync_step4 env si mi mp w)) = sourceAlias w"
  "destinationAlias (snd (sync_step4 env si mi mp w)) = destinationAlias w"
  "excludeTables (snd (sync_step4 env si mi mp w)) = excludeTables w"
  "fst (sync_step4 env si mi mp w) \<noteq> Panicked"
  by (simp_all add: sync_step4_def Let_def eff_defs split: sync_splits)

lemma step3_frame [simp]:
  "cleanups (trace (snd (sync_step3 env si mi l w))) = cleanups (trace w)"
  "states (trace (snd (sync_step3 env si mi l w))) = states (trace w)"
  "shardInfo (snd (sync_step3 env si mi l w)) = shardInfo w"
  "sourceAlias (snd (sync_step3 env si mi l w)) = sourceAlias w"
  "destinationAlias (snd (sync_step3 env si mi l w)) = destinationAlias w"
  "excludeTables (snd (sync_step3 env si mi l w)) = excludeTables w"
  "fst (sync_step3 env si mi l w) \<noteq> Panicked"
  by (simp_all add: sync_step3_def Let_def eff_defs split: sync_splits)

lemma step2_frame [simp]:
  "cleanups (trace (snd (sync_step2 env si mi bl w))) = cleanups (trace w)"
  "states (trace (snd (sync_step2 env si mi bl w))) = states (trace w)"
  "shardInfo (snd (sync_step2 env si mi bl w)) = shardInfo w"
  "sourceAlias (snd (sync_step2 env si mi bl w)) = sourceAlias w"
  "destinationAlias (snd (sync_step2 env si mi bl w)) = destinationAlias w"
  "excludeTables (snd (sync_step2 env si mi bl w)) = excludeTables w"
  "SourceShards si \<noteq> [] \<Longrightarrow> fst (sync_step2 env si mi bl w) \<noteq> Panicked"
  by (simp_all add: sync_step2_def Let_def eff_defs split: sync_splits)

lemma sync_frame:
  "cleanups (trace (snd (synchronizeReplication env w))) = cleanups (trace w)"
  "states (trace (snd (synchronizeReplication env w))) = states (trace w) @ [WorkerStateSyncReplication]"
  "shardInfo (snd (synchronizeReplication env w)) = shardInfo w"
  "sourceAlias (snd (synchronizeReplication env w)) = sourceAlias w"
  "destinationAlias (snd (synchronizeReplication env w)) = destinationAlias w"
  "excludeTables (snd (synchronizeReplication env w)) = excludeTables w"
  by (simp_all add: synchronizeReplication_def Let_def eff_defs split: sync_splits)

lemma sync_not_Panicked:
  "shardInfo w = Some si \<Longrightarrow> SourceShards si \<noteq> [] \<Longrightarrow> fst (synchronizeReplication env w) \<noteq> Panicked"
  by (simp add: synchronizeReplication_def Let_def eff_defs split: sync_splits)


lemma found_iff: "found res n \<longleftrightarrow> (\<exists>re\<in>set res. MatchString re n)"
  by (induction res) auto

lemma filter_tables_fst:
  "fst (filter_tables res tds new w) = new @ filter (\<lambda>td. found res (Name td)) tds"
  by (induction tds arbitrary: new w) simp_all

lemma filter_tables_frame [simp]:
  "cleanups (trace (snd (filter_tables res tds new w))) = cleanups (trace w)"
  "states (trace (snd (filter_tables res tds new w))) = states (trace w)"
  "calls (trace (snd (filter_tables res tds new w))) = calls (trace w)"
  "cleaner (snd (filter_tables res tds new w)) = cleaner w"
  "sourceAlias (snd (filter_tables res tds new w)) = sourceAlias w"
  "destinationAlias (snd (filter_tables res tds new w)) = destinationAlias w"
  "sourceSchemaDefinition (snd (filter_tables res tds new w)) = sourceSchemaDefinition w"
  "destinationSchemaDefinition (snd (filter_tables res tds new w)) = destinationSchemaDefinition w"
  by (induction tds arbitrary: new w; simp add: eff_defs)+

lemma filter_tables_lines:
  "lines l f (trace (snd (filter_tables res tds new w))) =
   lines l f (trace w) @
   (if l = LInfo \<and> f = ''Removing table %v from source schema''
    then map (\<lambda>td. [ArgStr (Name td)]) (filter (\<lambda>td. \<not> found res (Name td)) tds) else [])"
  by (induction tds arbitrary: new w) (auto simp add: eff_defs)

subsection \<open>The table goroutines and the pattern loop\<close>

lemmas task_splits = sum.splits if_splits

lemma diff_table_fst:
  "fst (diff_table env td (rec, w)) = rec @ recorded env w td"
  by (simp add: recorded_def diff_table_def Let_def RecordError_def eff_defs split: task_splits)

lemma recorded_aliases:
  "sourceAlias w' = sourceAlias w \<Longrightarrow> destinationAlias w' = destinationAlias w \<Longrightarrow>
   recorded env w' td = recorded env w td"
  by (simp add: recorded_def diff_table_def Let_def RecordError_def eff_defs split: task_splits)

lemma diff_table_frame [simp]:
  "cleanups (trace (snd (diff_table env td s))) = cleanups (trace (snd s))"
  "states (trace (snd (diff_table env td s))) = states (trace (snd s))"
  "calls (trace (snd (diff_table env td s))) = calls (trace (snd s))"
  "cleaner (snd (diff_table env td s)) = cleaner (snd s)"
  "sourceAlias (snd (diff_table env td s)) = sourceAlias (snd s)"
  "destinationAlias (snd (diff_table env td s)) = destinationAlias (snd s)"
  "sourceSchemaDefinition (snd (diff_table env td s)) = sourceSchemaDefinition (snd s)"
  "destinationSchemaDefinition (snd (diff_table env td s)) = destinationSchemaDefinition (snd s)"
  by (simp_all add: diff_table_def Let_def eff_defs split: task_splits)

lemma diff_table_started:
  "lines LInfo ''Starting the diff on table %v'' (trace (snd (diff_table env td s))) =
   lines LInfo ''Starting the diff on table %v'' (trace (snd s)) @ [[ArgStr (Name td)]]"
  by (simp add: diff_table_def Let_def eff_defs split: task_splits)

lemma diff_table_other_lines:
  "l = LWarning \<or> f = ''Removing table %v from source schema'' \<Longrightarrow>
   lines l f (trace (snd (diff_table env td s))) = lines l f (trace (snd s))"
  by (auto simp add: diff_table_def Let_def eff_defs split: task_splits)

lemma run_diffs_fst:
  "fst (run_diffs env tds (rec, w)) = rec @ concat (map (recorded env w) tds)"
proof (induction tds arbitrary: rec w)
  case Nil
  then show ?case by simp
next
  case (Cons td tds)
  obtain rec' w' where s: "diff_table env td (rec, w) = (rec', w')" by (cases "diff_table env td (rec, w)")
  from s have r: "rec' = rec @ recorded env w td" using diff_table_fst [of env td rec w] by simp
  from s have a: "sourceAlias w' = sourceAlias w" "destinationAlias w' = destinationAlias w"
    using diff_table_frame(5,6) [of env td "(rec, w)"] by simp_all
  have "map (recorded env w') tds = map (recorded env w) tds"
    using recorded_aliases [OF a] by simp
  with Cons.IH [of rec' w'] s r show ?case by simp
qed

lemma run_diffs_frame [simp]:
  "cleanups (trace (snd (run_diffs env tds s))) = cleanups (trace (snd s))"
  "states (trace (snd (run_diffs env tds s))) = states (trace (snd s))"
  "calls (trace (snd (run_diffs env tds s))) = calls (trace (snd s))"
  "cleaner (snd (run_diffs env tds s)) = cleaner (snd s)"
  "sourceAlias (snd (run_diffs env tds s)) = sourceAlias (snd s)"
  "destinationAlias (snd (run_diffs env tds s)) = destinationAlias (snd s)"
  "sourceSchemaDefinition (snd (run_diffs env tds s)) = sourceSchemaDefinition (snd s)"
  "destinationSchemaDefinition (snd (run_diffs env tds s)) = destinationSchemaDefinition (snd s)"
  by (induction tds arbitrary: s; simp)+

lemma run_diffs_started:
  "lines LInfo ''Starting the diff on table %v'' (trace (snd (run_diffs env tds s))) =
   lines LInfo ''Starting the diff on table %v'' (trace (snd s)) @ map (\<lambda>td. [ArgStr (Name td)]) tds"
  by (induction tds arbitrary: s) (simp_all add: diff_table_started)

lemma run_diffs_other_lines:
  "l = LWarning \<or> f = ''Removing table %v from source schema'' \<Longrightarrow>
   lines l f (trace (snd (run_diffs env tds s))) = lines l f (trace (snd s))"
  by (induction tds arbitrary: s) (simp_all add: diff_table_other_lines)

lemma compile_tables_Inr:
  "compile_tables env ts = Inr res \<longleftrightarrow> map (regexp_Compile env) ts = map Inr res"
proof (induction ts arbitrary: res)
  case Nil
  then show ?case by auto
next
  case (Cons t ts)
  show ?case
  proof (cases "regexp_Compile env t")
    case (Inl err)
    then show ?thesis by (cases res) auto
  next
    case (Inr re)
    show ?thesis
    proof (cases "compile_tables env ts")
      case (Inl e)
      have "map (regexp_Compile env) ts \<noteq> map Inr rs" for rs
        using Cons.IH [of rs] Inl by simp
      with Inl Inr show ?thesis by (cases res) auto
    next
      case r: (Inr rs)
      with Cons.IH [of rs] have "map (regexp_Compile env) ts = map Inr rs" by simp
      with Inr r show ?thesis by (cases res) (auto simp add: inj_map_eq_map)
    qed
  qed
qed

lemma compile_tables_Inl:
  "compile_tables env ts = Inl e \<longleftrightarrow>
   (\<exists>pre p post err. ts = pre @ p # post \<and> (\<forall>q\<in>set pre. \<exists>re. regexp_Compile env q = Inr re) \<and>
      regexp_Compile env p = Inl err \<and>
      e = Errorf ''cannot compile regexp %v for table: %v'' [ArgStr p, ArgErr err])"
proof (induction ts)
  case Nil
  then show ?case by simp
next
  case (Cons t ts)
  show ?case
  proof (cases "regexp_Compile env t")
    case (Inl err)
    show ?thesis
    proof
      assume "compile_tables env (t # ts) = Inl e"
      with Inl have "e = Errorf ''cannot compile regexp %v for table: %v'' [ArgStr t, ArgErr err]"
        by simp
      with Inl show "\<exists>pre p post err. t # ts = pre @ p # post \<and>
          (\<forall>q\<in>set pre. \<exists>re. regexp_Compile env q = Inr re) \<and> regexp_Compile env p = Inl err \<and>
          e = Errorf ''cannot compile regexp %v for table: %v'' [ArgStr p, ArgErr err]"
        by (intro exI [of _ "[]"] exI [of _ t] exI [of _ ts] exI [of _ err]) simp
    next
      assume "\<exists>pre p post err. t # ts = pre @ p # post \<and>
          (\<forall>q\<in>set pre. \<exists>re. regexp_Compile env q = Inr re) \<and> regexp_Compile env p = Inl err \<and>
          e = Errorf ''cannot compile regexp %v for table: %v'' [ArgStr p, ArgErr err]"
      then obtain pre p post err' where *: "t # ts = pre @ p # post"
        "\<forall>q\<in>set pre. \<exists>re. regexp_Compile env q = Inr re" "regexp_Compile env p = Inl err'"
        "e = Errorf ''cannot compile regexp %v for table: %v'' [ArgStr p, ArgErr err']" by blast
      with Inl have "pre = []" by (cases pre) auto
      with * Inl show "compile_tables env (t # ts) = Inl e" by simp
    qed
  next
    case (Inr re)
    have "compile_tables env (t # ts) = Inl e \<longleftrightarrow> compile_tables env ts = Inl e"
      using Inr by (simp split: sum.splits)
    also have "\<dots> \<longleftrightarrow> (\<exists>pre p post err. ts = pre @ p # post \<and>
          (\<forall>q\<in>set pre. \<exists>re. regexp_Compile env q = Inr re) \<and> regexp_Compile env p = Inl err \<and>
          e = Errorf ''cannot compile regexp %v for table: %v'' [ArgStr p, ArgErr err])"
      by (rule Cons.IH)
    also have "\<dots> \<longleftrightarrow> (\<exists>pre p post err. t # ts = pre @ p # post \<and>
          (\<forall>q\<in>set pre. \<exists>re. regexp_Compile env q = Inr re) \<and> regexp_Compile env p = Inl err \<and>
          e = Errorf ''cannot compile regexp %v for table: %v'' [ArgStr p, ArgErr err])"
      (is "?L \<longleftrightarrow> ?R")
    proof
      assume ?L
      then obtain pre p post err where *: "ts = pre @ p # post"
        "\<forall>q\<in>set pre. \<exists>re. regexp_Compile env q = Inr re" "regexp_Compile env p = Inl err"
        "e = Errorf ''cannot compile regexp %v for table: %v'' [ArgStr p, ArgErr err]" by blast
      with Inr show ?R
        by (intro exI [of _ "t # pre"] exI [of _ p] exI [of _ post] exI [of _ err]) simp
    next
      assume ?R
      then obtain pre p post err where *: "t # ts = pre @ p # post"
        "\<forall>q\<in>set pre. \<exists>re. regexp_Compile env q = Inr re" "regexp_Compile env p = Inl err"
        "e = Errorf ''cannot compile regexp %v for table: %v'' [ArgStr p, ArgErr err]" by blast
      from *(1,3) Inr obtain pre' where "pre = t # pre'" by (cases pre) auto
      with * show ?L
        by (intro exI [of _ pre'] exI [of _ p] exI [of _ post] exI [of _ err]) simp
    qed
    finally show ?thesis .
  qed
qed

subsection \<open>The diff phase once both schemas are there\<close>

lemma diff_tables_path:
  assumes si: "shardInfo w = Some si" and ss: "SourceShards si = ss # rest"
      and c: "compile_tables env (ss_Tables ss) = Inr res"
      and d: "destinationSchemaDefinition w = Some dst"
      and s: "sourceSchemaDefinition w = Some src"
  defines "src' \<equiv> src\<lparr>TableDefinitions := filter (\<lambda>td. found res (Name td)) (TableDefinitions src)\<rparr>"
  shows "fst (diff_tables env w) =
           outcome_of (rec_Error (DiffSchema env dst src' @ concat (map (recorded env w) (TableDefinitions dst))))"
    and "sourceSchemaDefinition (snd (diff_tables env w)) = Some src'"
    and "destinationSchemaDefinition (snd (diff_tables env w)) = Some dst"
    and "lines LInfo ''Starting the diff on table %v'' (trace (snd (diff_tables env w))) =
         lines LInfo ''Starting the diff on table %v'' (trace w) @
         map (\<lambda>td. [ArgStr (Name td)]) (TableDefinitions dst)"
    and "lines LInfo ''Removing table %v from source schema'' (trace (snd (diff_tables env w))) =
         lines LInfo ''Removing table %v from source schema'' (trace w) @
         map (\<lambda>td. [ArgStr (Name td)]) (filter (\<lambda>td. \<not> found res (Name td)) (TableDefinitions src))"
    and "lines LWarning f (trace (snd (diff_tables env w))) =
         lines LWarning f (trace w) @
         (if f = ''Different schemas: %v'' \<and> DiffSchema env dst src' \<noteq> []
          then [[ArgErr (Aggregate (DiffSchema env dst src'))]] else [])"
proof -
  define fw where "fw = filter_tables res (TableDefinitions src) [] w"
  define w2 where "w2 = Infof ''Diffing the schema...'' [] ((snd fw)\<lparr>sourceSchemaDefinition := Some src'\<rparr>)"
  define w3 where "w3 = Infof ''Running the diffs...'' [] (if HasErrors (DiffSchema env dst src')
       then Warningf ''Different schemas: %v'' [ArgErr (Aggregate (DiffSchema env dst src'))] w2
       else Infof ''Schema match, good.'' [] w2)"
  define rw where "rw = run_diffs env (TableDefinitions dst) (DiffSchema env dst src', w3)"
  have f: "fst fw = filter (\<lambda>td. found res (Name td)) (TableDefinitions src)"
    by (simp add: fw_def filter_tables_fst)
  have 2: "diff_tables env w = (outcome_of (rec_Error (fst rw)), snd rw)"
    using si ss c d s f
    by (simp add: diff_tables_def Let_def rw_def w3_def w2_def fw_def [symmetric] src'_def)
  from 2 have 3: "snd (diff_tables env w) = snd rw" by simp
  have a: "sourceAlias w3 = sourceAlias w" "destinationAlias w3 = destinationAlias w"
    by (simp_all add: w3_def w2_def fw_def eff_defs)
  have r: "fst rw = DiffSchema env dst src' @ concat (map (recorded env w) (TableDefinitions dst))"
  proof -
    have "recorded env w3 = recorded env w" by (rule ext) (rule recorded_aliases [OF a])
    then show ?thesis unfolding rw_def run_diffs_fst by simp
  qed
  show "fst (diff_tables env w) =
           outcome_of (rec_Error (DiffSchema env dst src' @ concat (map (recorded env w) (TableDefinitions dst))))"
    using 2 r by simp
  show "sourceSchemaDefinition (snd (diff_tables env w)) = Some src'"
    using 3 by (simp add: rw_def w3_def w2_def eff_defs)
  show "destinationSchemaDefinition (snd (diff_tables env w)) = Some dst"
    using 3 d by (simp add: rw_def w3_def w2_def eff_defs fw_def)
  show "lines LInfo ''Starting the diff on table %v'' (trace (snd (diff_tables env w))) =
         lines LInfo ''Starting the diff on table %v'' (trace w) @
         map (\<lambda>td. [ArgStr (Name td)]) (TableDefinitions dst)"
    using 3 by (simp add: rw_def run_diffs_started w3_def w2_def eff_defs fw_def filter_tables_lines)
  show "lines LInfo ''Removing table %v from source schema'' (trace (snd (diff_tables env w))) =
         lines LInfo ''Removing table %v from source schema'' (trace w) @
         map (\<lambda>td. [ArgStr (Name td)]) (filter (\<lambda>td. \<not> found res (Name td)) (TableDefinitions src))"
    using 3 by (simp add: rw_def run_diffs_other_lines w3_def w2_def eff_defs fw_def filter_tables_lines)
  show "lines LWarning f (trace (snd (diff_tables env w))) =
         lines LWarning f (trace w) @
         (if f = ''Different schemas: %v'' \<and> DiffSchema env dst src' \<noteq> []
          then [[ArgErr (Aggregate (DiffSchema env dst src'))]] else [])"
    using 3 by (auto simp add: rw_def run_diffs_other_lines w3_def w2_def eff_defs fw_def filter_tables_lines HasErrors_def)
qed


lemma diff_tables_frame [simp]:
  "cleanups (trace (snd (diff_tables env w))) = cleanups (trace w)"
  "states (trace (snd (diff_tables env w))) = states (trace w)"
  "calls (trace (snd (diff_tables env w))) = calls (trace w)"
  "cleaner (snd (diff_tables env w)) = cleaner w"
  by (simp_all add: diff_tables_def Let_def eff_defs split: sync_splits)

lemma diff_frame:
  "cleanups (trace (snd (diff env w))) = cleanups (trace w)"
  "states (trace (snd (diff env w))) = states (trace w) @ [WorkerStateDiff]"
  "calls (trace (snd (diff env w))) = calls (trace w)"
  "cleaner (snd (diff env w)) = cleaner w"
  by (simp_all add: diff_def Let_def eff_defs)

lemma diff_tables_not_Panicked:
  "shardInfo w = Some si \<Longrightarrow> SourceShards si \<noteq> [] \<Longrightarrow>
   destinationSchemaDefinition w \<noteq> None \<Longrightarrow> sourceSchemaDefinition w \<noteq> None \<Longrightarrow>
   fst (diff_tables env w) \<noteq> Panicked"
  by (auto simp add: diff_tables_def Let_def outcome_of_def rec_Error_def split: sync_splits)

lemma diff_not_Panicked:
  "shardInfo w = Some si \<Longrightarrow> SourceShards si \<noteq> [] \<Longrightarrow> fst (diff env w) \<noteq> Panicked"
  by (auto simp add: diff_def Let_def eff_defs RecordError_def HasErrors_def outcome_of_def
        rec_Error_def diff_tables_not_Panicked split: sum.splits)

lemma diff_path:
  assumes d: "GetSchema env (destinationAlias w) (excludeTables w) = Inr dst"
      and s: "GetSchema env (sourceAlias w) (excludeTables w) = Inr src"
  shows "\<exists>w1. diff env w = diff_tables env w1 \<and> shardInfo w1 = shardInfo w \<and>
           destinationSchemaDefinition w1 = Some dst \<and> sourceSchemaDefinition w1 = Some src \<and>
           sourceAlias w1 = sourceAlias w \<and> destinationAlias w1 = destinationAlias w \<and>
           (\<forall>l f. l = LWarning \<or> f = ''Starting the diff on table %v'' \<or>
                  f = ''Removing table %v from source schema'' \<longrightarrow>
                  lines l f (trace w1) = lines l f (trace w))"
  using d s
  by (intro exI [of _ "w\<lparr>State := WorkerStateDiff, destinationSchemaDefinition := Some dst,
          sourceSchemaDefinition := Some src,
          trace := trace w @ [SetStateEv WorkerStateDiff, Logf LInfo ''Gathering schema information...'' [],
                          Logf LInfo ''Got schema from destination %v'' [ArgAlias (destinationAlias w)],
                          Logf LInfo ''Got schema from source %v'' [ArgAlias (sourceAlias w)]]\<rparr>"])
     (auto simp add: diff_def Let_def eff_defs RecordError_def HasErrors_def)

lemma MatchString_iff:
  "MatchString re s \<longleftrightarrow> (\<exists>i j. i \<le> j \<and> j \<le> length s \<and> re s i j)"
proof -
  have "MatchString re s \<longleftrightarrow> (\<exists>i. i < Suc (length s) \<and> (\<exists>j. i \<le> j \<and> j < Suc (length s) \<and> re s i j))"
    by (simp add: MatchString_def list_ex_iff Bex_def del: upt_Suc)
  also have "\<dots> \<longleftrightarrow> (\<exists>i j. i \<le> j \<and> j \<le> length s \<and> re s i j)"
    by (metis le_imp_less_Suc less_Suc_eq_le order_trans)
  finally show ?thesis .
qed

lemma found_MatchString:
  "(\<lambda>td. found res (Name td)) = (\<lambda>td. \<exists>re\<in>set res. MatchString re (Name td))"
  by (simp add: found_iff)

lemma diff_compiled:
  assumes d: "GetSchema env (destinationAlias w) (excludeTables w) = Inr dst"
      and s: "GetSchema env (sourceAlias w) (excludeTables w) = Inr src"
      and si: "shardInfo w = Some si" and ss: "SourceShards si = ss # rest"
      and c: "map (regexp_Compile env) (ss_Tables ss) = map Inr res"
  defines "src' \<equiv> src\<lparr>TableDefinitions := filter (\<lambda>td. \<exists>re\<in>set res. MatchString re (Name td)) (TableDefinitions src)\<rparr>"
  shows "fst (diff env w) =
           outcome_of (rec_Error (DiffSchema env dst src' @ concat (map (recorded env w) (TableDefinitions dst))))"
    and "sourceSchemaDefinition (snd (diff env w)) = Some src'"
    and "lines LInfo ''Starting the diff on table %v'' (trace (snd (diff env w))) =
         lines LInfo ''Starting the diff on table %v'' (trace w) @
         map (\<lambda>td. [ArgStr (Name td)]) (TableDefinitions dst)"
    and "lines LInfo ''Removing table %v from source schema'' (trace (snd (diff env w))) =
         lines LInfo ''Removing table %v from source schema'' (trace w) @
         map (\<lambda>td. [ArgStr (Name td)])
           (filter (\<lambda>td. \<not> (\<exists>re\<in>set res. MatchString re (Name td))) (TableDefinitions src))"
    and "lines LWarning f (trace (snd (diff env w))) =
         lines LWarning f (trace w) @
         (if f = ''Different schemas: %v'' \<and> DiffSchema env dst src' \<noteq> []
          then [[ArgErr (Aggregate (DiffSchema env dst src'))]] else [])"
proof -
  from diff_path [OF d s] obtain w1 where w1: "diff env w = diff_tables env w1"
    "shardInfo w1 = shardInfo w" "destinationSchemaDefinition w1 = Some dst"
    "sourceSchemaDefinition w1 = Some src" "sourceAlias w1 = sourceAlias w"
    "destinationAlias w1 = destinationAlias w"
    and l: "\<And>l f. l = LWarning \<or> f = ''Starting the diff on table %v'' \<or>
                  f = ''Removing table %v from source schema'' \<Longrightarrow>
                  lines l f (trace w1) = lines l f (trace w)"
    by blast
  from c have c': "compile_tables env (ss_Tables ss) = Inr res" by (simp add: compile_tables_Inr)
  from si w1(2) have si1: "shardInfo w1 = Some si" by simp
  have r: "recorded env w1 = recorded env w" by (rule ext) (rule recorded_aliases [OF w1(5,6)])
  note p = diff_tables_path [OF si1 ss c' w1(3,4), unfolded found_MatchString, folded src'_def]
  show "fst (diff env w) =
           outcome_of (rec_Error (DiffSchema env dst src' @ concat (map (recorded env w) (TableDefinitions dst))))"
    using p(1) w1(1) r by simp
  show "sourceSchemaDefinition (snd (diff env w)) = Some src'"
    using p(2) w1(1) by simp
  show "lines LInfo ''Starting the diff on table %v'' (trace (snd (diff env w))) =
         lines LInfo ''Starting the diff on table %v'' (trace w) @
         map (\<lambda>td. [ArgStr (Name td)]) (TableDefinitions dst)"
    using p(4) w1(1) l [of LInfo "''Starting the diff on table %v''"] by simp
  show "lines LInfo ''Removing table %v from source schema'' (trace (snd (diff env w))) =
         lines LInfo ''Removing table %v from source schema'' (trace w) @
         map (\<lambda>td. [ArgStr (Name td)])
           (filter (\<lambda>td. \<not> (\<exists>re\<in>set res. MatchString re (Name td))) (TableDefinitions src))"
    using p(5) w1(1) l [of LInfo "''Removing table %v from source schema''"] by (simp add: found_iff)
  show "lines LWarning f (trace (snd (diff env w))) =
         lines LWarning f (trace w) @
         (if f = ''Different schemas: %v'' \<and> DiffSchema env dst src' \<noteq> []
          then [[ArgErr (Aggregate (DiffSchema env dst src'))]] else [])"
    using p(6) [of f] w1(1) l [of LWarning f] by simp
qed

subsection \<open>Filtering the source tables\<close>

text \<open>
  Claim C6. Once both schemas are fetched and the patterns compile, the source schema
  keeps exactly the table definitions whose name some pattern matches, in their original
  order; every other table gives one \<open>Removing table\<close> log line, in order, and no error:
  the phase's result is the aggregate of the schema check and of the table goroutines.
\<close>

theorem source_tables_filtered:
  assumes "GetSchema env (destinationAlias w) (excludeTables w) = Inr dst"
      and "GetSchema env (sourceAlias w) (excludeTables w) = Inr src"
      and "shardInfo w = Some si" and "SourceShards si = ss # rest"
      and "map (regexp_Compile env) (ss_Tables ss) = map Inr res"
  shows "sourceSchemaDefinition (snd (diff env w)) =
           Some (src\<lparr>TableDefinitions :=
                   filter (\<lambda>td. \<exists>re\<in>set res. MatchString re (Name td)) (TableDefinitions src)\<rparr>) \<and>
         lines LInfo ''Removing table %v from source schema'' (trace (snd (diff env w))) =
           lines LInfo ''Removing table %v from source schema'' (trace w) @
           map (\<lambda>td. [ArgStr (Name td)])
             (filter (\<lambda>td. \<not> (\<exists>re\<in>set res. MatchString re (Name td))) (TableDefinitions src)) \<and>
         fst (diff env w) =
           outcome_of (rec_Error
             (DiffSchema env dst
                (src\<lparr>TableDefinitions :=
                   filter (\<lambda>td. \<exists>re\<in>set res. MatchString re (Name td)) (TableDefinitions src)\<rparr>) @
              concat (map (recorded env w) (TableDefinitions dst))))"
  using diff_compiled(1,2,4) [OF assms] by simp

lemma literal_user:
  "MatchString (literal ''user'') ''user''"
  "\<not> MatchString (literal ''user'') ''product''"
  "MatchString (literal ''user'') ''user_extra''"
  by code_simp+

lemma ready_fields:
  "destinationAlias ready_worker = dst_alias" "sourceAlias ready_worker = src_alias"
  "excludeTables ready_worker = []" "shardInfo ready_worker = Some shard0"
  "trace ready_worker = []" "cleaner ready_worker = []"
  by (simp_all add: ready_worker_def worker0_def NewVerticalSplitDiffWorker_def)

lemma alias_distinct: "dst_alias \<noteq> src_alias" "master_alias \<noteq> src_alias" "master_alias \<noteq> dst_alias"
  by (simp_all add: dst_alias_def src_alias_def master_alias_def)

lemma recorded_cluster: "recorded cluster ready_worker td = []"
  by (simp add: recorded_def diff_table_def cluster_def Let_def eff_defs HasDifferences_def)

theorem source_tables_filtered_witness:
  "GetSchema cluster (destinationAlias ready_worker) (excludeTables ready_worker) = Inr dst_schema \<and>
   GetSchema cluster (sourceAlias ready_worker) (excludeTables ready_worker) = Inr src_schema \<and>
   shardInfo ready_worker = Some shard0 \<and> SourceShards shard0 = source_shard0 # [] \<and>
   map (regexp_Compile cluster) (ss_Tables source_shard0) = map Inr [literal ''user''] \<and>
   sourceSchemaDefinition (snd (diff cluster ready_worker)) =
     Some \<lparr>TableDefinitions = [tbl ''user'', tbl ''user_extra'']\<rparr> \<and>
   lines LInfo ''Removing table %v from source schema'' (trace (snd (diff cluster ready_worker))) =
     [[ArgStr ''product'']] \<and>
   fst (diff cluster ready_worker) = Nil"
proof -
  have h1: "GetSchema cluster (destinationAlias ready_worker) (excludeTables ready_worker) = Inr dst_schema"
    by (simp add: cluster_def ready_fields alias_distinct)
  have h2: "GetSchema cluster (sourceAlias ready_worker) (excludeTables ready_worker) = Inr src_schema"
    by (simp add: cluster_def ready_fields)
  have h3: "shardInfo ready_worker = Some shard0" by (simp add: ready_fields)
  have h4: "SourceShards shard0 = source_shard0 # []" by (simp add: shard0_def)
  have h5: "map (regexp_Compile cluster) (ss_Tables source_shard0) = map Inr [literal ''user'']"
    by (simp add: cluster_def source_shard0_def)
  have f: "filter (\<lambda>td. \<exists>re\<in>set [literal ''user'']. MatchString re (Name td)) (TableDefinitions src_schema) =
           [tbl ''user'', tbl ''user_extra'']"
    by (simp add: src_schema_def tbl_def literal_user)
  have g: "filter (\<lambda>td. \<not> (\<exists>re\<in>set [literal ''user'']. MatchString re (Name td))) (TableDefinitions src_schema) =
           [tbl ''product'']"
    by (simp add: src_schema_def tbl_def literal_user)
  have ds: "DiffSchema cluster dst_schema (src_schema\<lparr>TableDefinitions := [tbl ''user'', tbl ''user_extra'']\<rparr>) = []"
    by (simp add: cluster_def dst_schema_def)
  from source_tables_filtered [OF h1 h2 h3 h4 h5] h1 h2 h3 h4 h5 f g ds
  show ?thesis
    by (simp add: ready_fields recorded_cluster outcome_of_def rec_Error_def src_schema_def tbl_def)
qed

subsection \<open>Unanchored patterns\<close>

lemma diff_compile_failure:
  assumes d: "GetSchema env (destinationAlias w) (excludeTables w) = Inr dst"
      and s: "GetSchema env (sourceAlias w) (excludeTables w) = Inr src"
      and si: "shardInfo w = Some si" and ss: "SourceShards si = ss # rest"
      and c: "compile_tables env (ss_Tables ss) = Inl e"
  shows "fst (diff env w) = Err e"
    and "lines LInfo ''Starting the diff on table %v'' (trace (snd (diff env w))) =
         lines LInfo ''Starting the diff on table %v'' (trace w)"
    and "sourceSchemaDefinition (snd (diff env w)) = Some src"
proof -
  from diff_path [OF d s] obtain w1 where w1: "diff env w = diff_tables env w1"
    "shardInfo w1 = shardInfo w" "sourceSchemaDefinition w1 = Some src"
    and l: "\<And>l f. l = LWarning \<or> f = ''Starting the diff on table %v'' \<or>
                  f = ''Removing table %v from source schema'' \<Longrightarrow>
                  lines l f (trace w1) = lines l f (trace w)"
    by blast
  have "diff_tables env w1 = (Err e, w1)"
    using si ss c w1(2) by (simp add: diff_tables_def)
  with w1 l [of LInfo "''Starting the diff on table %v''"]
  show "fst (diff env w) = Err e"
    and "lines LInfo ''Starting the diff on table %v'' (trace (snd (diff env w))) =
         lines LInfo ''Starting the diff on table %v'' (trace w)"
    and "sourceSchemaDefinition (snd (diff env w)) = Some src"
    by simp_all
qed

lemma compile_tables_fails:
  assumes "p \<in> set ts" and "regexp_Compile env p = Inl err"
  shows "\<exists>e. compile_tables env ts = Inl e"
proof (cases "compile_tables env ts")
  case (Inl e)
  then show ?thesis by blast
next
  case (Inr res)
  then have "map (regexp_Compile env) ts = map Inr res" by (simp add: compile_tables_Inr)
  then have "regexp_Compile env p \<in> set (map Inr res)" using assms(1) by (metis image_eqI set_map)
  with assms(2) show ?thesis by auto
qed

text \<open>
  Claim C10. The patterns go to \<^verbatim>\<open>regexp.Compile\<close> as they are, and a table name goes
  to \<^verbatim>\<open>MatchString\<close> as it is: a source table is kept exactly when some compiled
  pattern matches some stretch \<open>i..j\<close> of its name (the pattern \<open>user\<close> keeps
  \<open>user_extra\<close>). When a pattern does not compile, the phase returns the
  \<open>cannot compile regexp\<close> error for a pattern that failed, and no table's comparison
  has started.
\<close>

theorem table_patterns_unanchored:
  assumes "GetSchema env (destinationAlias w) (excludeTables w) = Inr dst"
      and "GetSchema env (sourceAlias w) (excludeTables w) = Inr src"
      and "shardInfo w = Some si" and "SourceShards si = ss # rest"
  shows "(map (regexp_Compile env) (ss_Tables ss) = map Inr res \<longrightarrow>
           (\<exists>src'. sourceSchemaDefinition (snd (diff env w)) = Some src' \<and>
              (\<forall>td\<in>set (TableDefinitions src).
                 td \<in> set (TableDefinitions src') \<longleftrightarrow>
                 (\<exists>re\<in>set res. \<exists>i j. i \<le> j \<and> j \<le> length (Name td) \<and> re (Name td) i j)))) \<and>
         ((\<exists>p\<in>set (ss_Tables ss). \<exists>err. regexp_Compile env p = Inl err) \<longrightarrow>
           (\<exists>p\<in>set (ss_Tables ss). \<exists>err. regexp_Compile env p = Inl err \<and>
              fst (diff env w) =
                Err (Errorf ''cannot compile regexp %v for table: %v'' [ArgStr p, ArgErr err])) \<and>
           lines LInfo ''Starting the diff on table %v'' (trace (snd (diff env w))) =
             lines LInfo ''Starting the diff on table %v'' (trace w))"
proof (intro conjI impI)
  assume c: "map (regexp_Compile env) (ss_Tables ss) = map Inr res"
  from diff_compiled(2) [OF assms c]
  show "\<exists>src'. sourceSchemaDefinition (snd (diff env w)) = Some src' \<and>
              (\<forall>td\<in>set (TableDefinitions src).
                 td \<in> set (TableDefinitions src') \<longleftrightarrow>
                 (\<exists>re\<in>set res. \<exists>i j. i \<le> j \<and> j \<le> length (Name td) \<and> re (Name td) i j))"
    by (simp add: MatchString_iff)
next
  assume "\<exists>p\<in>set (ss_Tables ss). \<exists>err. regexp_Compile env p = Inl err"
  then obtain e where e: "compile_tables env (ss_Tables ss) = Inl e"
    using compile_tables_fails by blast
  then obtain pre p post err where p: "ss_Tables ss = pre @ p # post"
    "regexp_Compile env p = Inl err"
    "e = Errorf ''cannot compile regexp %v for table: %v'' [ArgStr p, ArgErr err]"
    unfolding compile_tables_Inl by blast
  from p(1) have "p \<in> set (ss_Tables ss)" by simp
  with p(2,3) diff_compile_failure(1) [OF assms e]
  show "\<exists>p\<in>set (ss_Tables ss). \<exists>err. regexp_Compile env p = Inl err \<and>
              fst (diff env w) =
                Err (Errorf ''cannot compile regexp %v for table: %v'' [ArgStr p, ArgErr err])"
    by blast
  from diff_compile_failure(2) [OF assms e]
  show "lines LInfo ''Starting the diff on table %v'' (trace (snd (diff env w))) =
             lines LInfo ''Starting the diff on table %v'' (trace w)" .
qed

theorem table_patterns_unanchored_witness:
  "GetSchema cluster (destinationAlias ready_worker) (excludeTables ready_worker) = Inr dst_schema \<and>
   GetSchema cluster (sourceAlias ready_worker) (excludeTables ready_worker) = Inr src_schema \<and>
   shardInfo ready_worker = Some shard0 \<and> SourceShards shard0 = source_shard0 # [] \<and>
   map (regexp_Compile cluster) (ss_Tables source_shard0) = map Inr [literal ''user''] \<and>
   tbl ''user_extra'' \<in> set (TableDefinitions src_schema) \<and>
   literal ''user'' (Name (tbl ''user_extra'')) 0 4 \<and>
   (\<exists>src'. sourceSchemaDefinition (snd (diff cluster ready_worker)) = Some src' \<and>
           tbl ''user_extra'' \<in> set (TableDefinitions src')) \<and>
   ss_Tables bad_pattern_shard = [''user'', ''(''] \<and>
   regexp_Compile cluster ''('' = Inl (External ''missing closing )'') \<and>
   fst (diff cluster bad_pattern_worker) =
     Err (Errorf ''cannot compile regexp %v for table: %v''
            [ArgStr ''('', ArgErr (External ''missing closing )'')]) \<and>
   lines LInfo ''Starting the diff on table %v'' (trace (snd (diff cluster bad_pattern_worker))) = []"
proof -
  have b1: "GetSchema cluster (destinationAlias bad_pattern_worker) (excludeTables bad_pattern_worker) =
              Inr dst_schema"
    by (simp add: cluster_def bad_pattern_worker_def ready_fields alias_distinct)
  have b2: "GetSchema cluster (sourceAlias bad_pattern_worker) (excludeTables bad_pattern_worker) =
              Inr src_schema"
    by (simp add: cluster_def bad_pattern_worker_def ready_fields)
  have b3: "shardInfo bad_pattern_worker = Some (shard0\<lparr>SourceShards := [bad_pattern_shard]\<rparr>)"
    by (simp add: bad_pattern_worker_def)
  have b4: "SourceShards (shard0\<lparr>SourceShards := [bad_pattern_shard]\<rparr>) = bad_pattern_shard # []"
    by simp
  have b5: "ss_Tables bad_pattern_shard = [''user'', ''('']" by (simp add: bad_pattern_shard_def)
  have b6: "regexp_Compile cluster ''('' = Inl (External ''missing closing )'')"
    and b7: "regexp_Compile cluster ''user'' = Inr (literal ''user'')"
    by (simp_all add: cluster_def)
  have b8: "trace bad_pattern_worker = []" by (simp add: bad_pattern_worker_def ready_fields)
  from b5 b6 have "\<exists>p\<in>set (ss_Tables bad_pattern_shard). \<exists>err. regexp_Compile cluster p = Inl err"
    by simp
  with table_patterns_unanchored [OF b1 b2 b3 b4, of "[]"]
  have bad: "(\<exists>p\<in>set (ss_Tables bad_pattern_shard). \<exists>err. regexp_Compile cluster p = Inl err \<and>
              fst (diff cluster bad_pattern_worker) =
                Err (Errorf ''cannot compile regexp %v for table: %v'' [ArgStr p, ArgErr err])) \<and>
           lines LInfo ''Starting the diff on table %v'' (trace (snd (diff cluster bad_pattern_worker))) =
             lines LInfo ''Starting the diff on table %v'' (trace bad_pattern_worker)"
    by blast
  with b5 b6 b7 b8 have bad': "fst (diff cluster bad_pattern_worker) =
     Err (Errorf ''cannot compile regexp %v for table: %v''
            [ArgStr ''('', ArgErr (External ''missing closing )'')]) \<and>
   lines LInfo ''Starting the diff on table %v'' (trace (snd (diff cluster bad_pattern_worker))) = []"
    by auto
  have h1: "GetSchema cluster (destinationAlias ready_worker) (excludeTables ready_worker) = Inr dst_schema"
    by (simp add: cluster_def ready_fields alias_distinct)
  have h2: "GetSchema cluster (sourceAlias ready_worker) (excludeTables ready_worker) = Inr src_schema"
    by (simp add: cluster_def ready_fields)
  have h3: "shardInfo ready_worker = Some shard0" by (simp add: ready_fields)
  have h4: "SourceShards shard0 = source_shard0 # []" by (simp add: shard0_def)
  have h5: "map (regexp_Compile cluster) (ss_Tables source_shard0) = map Inr [literal ''user'']"
    by (simp add: cluster_def source_shard0_def)
  have m: "tbl ''user_extra'' \<in> set (TableDefinitions src_schema)" by (simp add: src_schema_def)
  have l: "literal ''user'' (Name (tbl ''user_extra'')) 0 4" by (simp add: literal_def tbl_def)
  from table_patterns_unanchored [OF h1 h2 h3 h4, of "[literal ''user'']"] h5
  obtain src' where s: "sourceSchemaDefinition (snd (diff cluster ready_worker)) = Some src'"
    and k: "\<forall>td\<in>set (TableDefinitions src_schema).
                 td \<in> set (TableDefinitions src') \<longleftrightarrow>
                 (\<exists>re\<in>set [literal ''user'']. \<exists>i j. i \<le> j \<and> j \<le> length (Name td) \<and> re (Name td) i j)"
    by blast
  have "\<exists>re\<in>set [literal ''user'']. \<exists>i j. i \<le> j \<and> j \<le> length (Name (tbl ''user_extra'')) \<and>
           re (Name (tbl ''user_extra'')) i j"
    using l by (intro bexI [of _ "literal ''user''"] exI [of _ 0] exI [of _ 4]) (simp_all add: tbl_def)
  with k m have "tbl ''user_extra'' \<in> set (TableDefinitions src')" by blast
  with s h1 h2 h3 h4 h5 m l b5 b6 bad' show ?thesis by blast
qed

subsection \<open>What the table goroutines record\<close>

lemma recorded_cases:
  "TableScan env (sourceAlias w) td = Inl e \<Longrightarrow>
     recorded env w td = [Errorf ''TableScan(source) failed: %v'' [ArgErr e]]"
  "TableScan env (sourceAlias w) td = Inr r \<Longrightarrow> TableScan env (destinationAlias w) td = Inl e \<Longrightarrow>
     recorded env w td = [Errorf ''TableScan(destination) failed: %v'' [ArgErr e]]"
  "TableScan env (sourceAlias w) td = Inr r \<Longrightarrow> TableScan env (destinationAlias w) td = Inr r' \<Longrightarrow>
   NewRowDiffer env r r' td = Inl e \<Longrightarrow>
     recorded env w td = [Errorf ''NewRowDiffer() failed: %v'' [ArgErr e]]"
  "TableScan env (sourceAlias w) td = Inr r \<Longrightarrow> TableScan env (destinationAlias w) td = Inr r' \<Longrightarrow>
   NewRowDiffer env r r' td = Inr df \<Longrightarrow> differ_Go env df = Inr rep \<Longrightarrow> HasDifferences rep \<Longrightarrow>
     recorded env w td = [Errorf ''Table %v has differences: %v'' [ArgStr (Name td), ArgReport rep]]"
  "TableScan env (sourceAlias w) td = Inr r \<Longrightarrow> TableScan env (destinationAlias w) td = Inr r' \<Longrightarrow>
   NewRowDiffer env r r' td = Inr df \<Longrightarrow> differ_Go env df = Inr rep \<Longrightarrow> \<not> HasDifferences rep \<Longrightarrow>
     recorded env w td = []"
  by (simp_all add: recorded_def diff_table_def Let_def RecordError_def eff_defs)

text \<open>
  Claim C1, as amended. Once both schemas are fetched and the patterns compile, the
  goroutine of every table of the destination schema starts, whatever the others do; a
  table whose source or destination row stream does not open, whose differ cannot be
  built, or whose report has a mismatch adds exactly that error to the recorder; the
  phase returns the aggregate of what the schema check recorded followed by what the
  tables recorded, so its error is non-nil exactly when the schema check recorded a
  difference or some table recorded a failure or a mismatch.
\<close>

theorem table_failures_recorded:
  assumes "GetSchema env (destinationAlias w) (excludeTables w) = Inr dst"
      and "GetSchema env (sourceAlias w) (excludeTables w) = Inr src"
      and "shardInfo w = Some si" and "SourceShards si = ss # rest"
      and "map (regexp_Compile env) (ss_Tables ss) = map Inr res"
  shows "lines LInfo ''Starting the diff on table %v'' (trace (snd (diff env w))) =
           lines LInfo ''Starting the diff on table %v'' (trace w) @
           map (\<lambda>td. [ArgStr (Name td)]) (TableDefinitions dst) \<and>
         (\<forall>td\<in>set (TableDefinitions dst).
            (\<forall>e. TableScan env (sourceAlias w) td = Inl e \<longrightarrow>
               recorded env w td = [Errorf ''TableScan(source) failed: %v'' [ArgErr e]]) \<and>
            (\<forall>r e. TableScan env (sourceAlias w) td = Inr r \<longrightarrow>
               TableScan env (destinationAlias w) td = Inl e \<longrightarrow>
               recorded env w td = [Errorf ''TableScan(destination) failed: %v'' [ArgErr e]]) \<and>
            (\<forall>r r' e. TableScan env (sourceAlias w) td = Inr r \<longrightarrow>
               TableScan env (destinationAlias w) td = Inr r' \<longrightarrow>
               NewRowDiffer env r r' td = Inl e \<longrightarrow>
               recorded env w td = [Errorf ''NewRowDiffer() failed: %v'' [ArgErr e]]) \<and>
            (\<forall>r r' df rep. TableScan env (sourceAlias w) td = Inr r \<longrightarrow>
               TableScan env (destinationAlias w) td = Inr r' \<longrightarrow>
               NewRowDiffer env r r' td = Inr df \<longrightarrow> differ_Go env df = Inr rep \<longrightarrow>
               HasDifferences rep \<longrightarrow>
               recorded env w td =
                 [Errorf ''Table %v has differences: %v'' [ArgStr (Name td), ArgReport rep]])) \<and>
         fst (diff env w) =
           outcome_of (rec_Error
             (DiffSchema env dst
                (src\<lparr>TableDefinitions :=
                   filter (\<lambda>td. \<exists>re\<in>set res. MatchString re (Name td)) (TableDefinitions src)\<rparr>) @
              concat (map (recorded env w) (TableDefinitions dst)))) \<and>
         (fst (diff env w) \<noteq> Nil \<longleftrightarrow>
            DiffSchema env dst
              (src\<lparr>TableDefinitions :=
                 filter (\<lambda>td. \<exists>re\<in>set res. MatchString re (Name td)) (TableDefinitions src)\<rparr>) \<noteq> [] \<or>
            (\<exists>td\<in>set (TableDefinitions dst). recorded env w td \<noteq> []))"
  using diff_compiled(1,3) [OF assms]
  by (auto simp add: recorded_cases outcome_of_def rec_Error_def)


lemma five_tables_kept:
  "filter (\<lambda>td. \<exists>re\<in>set [literal ''user'']. MatchString re (Name td)) (TableDefinitions five_tables) =
   TableDefinitions five_tables"
proof -
  have "MatchString (literal ''user'') ''user_a''" "MatchString (literal ''user'') ''user_b''"
    "MatchString (literal ''user'') ''user_c''" "MatchString (literal ''user'') ''user_d''"
    "MatchString (literal ''user'') ''user_e''"
    by code_simp+
  then show ?thesis by (simp add: five_tables_def tbl_def)
qed

theorem table_failures_recorded_witness:
  "GetSchema failures_cluster (destinationAlias ready_worker) (excludeTables ready_worker) = Inr five_tables \<and>
   GetSchema failures_cluster (sourceAlias ready_worker) (excludeTables ready_worker) = Inr five_tables \<and>
   shardInfo ready_worker = Some shard0 \<and> SourceShards shard0 = source_shard0 # [] \<and>
   map (regexp_Compile failures_cluster) (ss_Tables source_shard0) = map Inr [literal ''user''] \<and>
   TableScan failures_cluster (sourceAlias ready_worker) (tbl ''user_a'') = Inl (External ''source scan failed'') \<and>
   lines LInfo ''Starting the diff on table %v'' (trace (snd (diff failures_cluster ready_worker))) =
     [[ArgStr ''user_a''], [ArgStr ''user_b''], [ArgStr ''user_c''], [ArgStr ''user_d''], [ArgStr ''user_e'']] \<and>
   fst (diff failures_cluster ready_worker) =
     Err (Aggregate
       [Errorf ''TableScan(source) failed: %v'' [ArgErr (External ''source scan failed'')],
        Errorf ''TableScan(destination) failed: %v'' [ArgErr (External ''destination scan failed'')],
        Errorf ''NewRowDiffer() failed: %v'' [ArgErr (External ''no primary key'')],
        Errorf ''Table %v has differences: %v'' [ArgStr ''user_d'', ArgReport mismatch_report]])"
proof -
  have h1: "GetSchema failures_cluster (destinationAlias ready_worker) (excludeTables ready_worker) = Inr five_tables"
    and h2: "GetSchema failures_cluster (sourceAlias ready_worker) (excludeTables ready_worker) = Inr five_tables"
    by (simp_all add: failures_cluster_def)
  have h3: "shardInfo ready_worker = Some shard0" by (simp add: ready_fields)
  have h4: "SourceShards shard0 = source_shard0 # []" by (simp add: shard0_def)
  have h5: "map (regexp_Compile failures_cluster) (ss_Tables source_shard0) = map Inr [literal ''user'']"
    by (simp add: failures_cluster_def cluster_def source_shard0_def)
  have ds: "DiffSchema failures_cluster five_tables (five_tables\<lparr>TableDefinitions := TableDefinitions five_tables\<rparr>) = []"
    by (simp add: failures_cluster_def cluster_def)
  have a: "TableScan failures_cluster (sourceAlias ready_worker) (tbl ''user_a'') = Inl (External ''source scan failed'')"
    by (simp add: failures_cluster_def ready_fields tbl_def)
  have r: "concat (map (recorded failures_cluster ready_worker) (TableDefinitions five_tables)) =
       [Errorf ''TableScan(source) failed: %v'' [ArgErr (External ''source scan failed'')],
        Errorf ''TableScan(destination) failed: %v'' [ArgErr (External ''destination scan failed'')],
        Errorf ''NewRowDiffer() failed: %v'' [ArgErr (External ''no primary key'')],
        Errorf ''Table %v has differences: %v'' [ArgStr ''user_d'', ArgReport mismatch_report]]"
    by (simp add: five_tables_def tbl_def recorded_def diff_table_def failures_cluster_def cluster_def
          ready_fields alias_distinct Let_def RecordError_def eff_defs HasDifferences_def
          mismatch_report_def src_alias_def dst_alias_def)
  note T = table_failures_recorded [OF h1 h2 h3 h4 h5]
  from T [THEN conjunct1]
  have st: "lines LInfo ''Starting the diff on table %v'' (trace (snd (diff failures_cluster ready_worker))) =
     [[ArgStr ''user_a''], [ArgStr ''user_b''], [ArgStr ''user_c''], [ArgStr ''user_d''], [ArgStr ''user_e'']]"
    by (simp add: ready_fields five_tables_def tbl_def)
  from T [THEN conjunct2, THEN conjunct2, THEN conjunct1]
  have "fst (diff failures_cluster ready_worker) =
     Err (Aggregate
       [Errorf ''TableScan(source) failed: %v'' [ArgErr (External ''source scan failed'')],
        Errorf ''TableScan(destination) failed: %v'' [ArgErr (External ''destination scan failed'')],
        Errorf ''NewRowDiffer() failed: %v'' [ArgErr (External ''no primary key'')],
        Errorf ''Table %v has differences: %v'' [ArgStr ''user_d'', ArgReport mismatch_report]])"
    by (simp only: five_tables_kept ds r append_Nil) (simp add: outcome_of_def rec_Error_def)
  with st h1 h2 h3 h4 h5 a show ?thesis by simp
qed

text \<open>
  Against claim C1 as stated: on the cluster whose schema check reports a difference, no
  table of the destination schema records a failure or a mismatch, and the phase still
  returns a non-nil error.
\<close>

theorem schema_difference_alone_fails_diff:
  "GetSchema mismatch_cluster (destinationAlias ready_worker) (excludeTables ready_worker) = Inr dst_schema \<and>
   TableDefinitions dst_schema = [tbl ''user'', tbl ''user_extra''] \<and>
   recorded mismatch_cluster ready_worker (tbl ''user'') = [] \<and>
   recorded mismatch_cluster ready_worker (tbl ''user_extra'') = [] \<and>
   fst (diff mismatch_cluster ready_worker) = Err (Aggregate [External ''schemas differ''])"
proof -
  have h1: "GetSchema mismatch_cluster (destinationAlias ready_worker) (excludeTables ready_worker) = Inr dst_schema"
    by (simp add: mismatch_cluster_def cluster_def ready_fields alias_distinct)
  have h2: "GetSchema mismatch_cluster (sourceAlias ready_worker) (excludeTables ready_worker) = Inr src_schema"
    by (simp add: mismatch_cluster_def cluster_def ready_fields)
  have h3: "shardInfo ready_worker = Some shard0" by (simp add: ready_fields)
  have h4: "SourceShards shard0 = source_shard0 # []" by (simp add: shard0_def)
  have h5: "map (regexp_Compile mismatch_cluster) (ss_Tables source_shard0) = map Inr [literal ''user'']"
    by (simp add: mismatch_cluster_def cluster_def source_shard0_def)
  have r: "recorded mismatch_cluster ready_worker td = []" for td
    by (simp add: recorded_def diff_table_def mismatch_cluster_def cluster_def Let_def eff_defs
          HasDifferences_def)
  have t: "TableDefinitions dst_schema = [tbl ''user'', tbl ''user_extra'']" by (simp add: dst_schema_def)
  have ds: "DiffSchema mismatch_cluster d s = [External ''schemas differ'']" for d s
    by (simp add: mismatch_cluster_def)
  have c: "concat (map (recorded mismatch_cluster ready_worker) tds) = []" for tds
    by (simp add: r)
  from diff_compiled(1) [OF h1 h2 h3 h4 h5]
  have "fst (diff mismatch_cluster ready_worker) = Err (Aggregate [External ''schemas differ''])"
    by (simp add: ds c outcome_of_def rec_Error_def)
  with h1 t r show ?thesis by simp
qed

text \<open>
  A read failure during the row-by-row comparison is logged and not recorded: when it is
  the only failure, the phase returns nil.
\<close>

lemma read_failure_not_recorded:
  "differ_Go read_failure_cluster (RowDiffer 0) = Inl (External ''read failed'') \<and>
   recorded read_failure_cluster ready_worker (tbl ''user'') = [] \<and>
   fst (diff read_failure_cluster ready_worker) = Nil"
proof -
  have h1: "GetSchema read_failure_cluster (destinationAlias ready_worker) (excludeTables ready_worker) = Inr dst_schema"
    by (simp add: read_failure_cluster_def cluster_def ready_fields alias_distinct)
  have h2: "GetSchema read_failure_cluster (sourceAlias ready_worker) (excludeTables ready_worker) = Inr src_schema"
    by (simp add: read_failure_cluster_def cluster_def ready_fields)
  have h3: "shardInfo ready_worker = Some shard0" by (simp add: ready_fields)
  have h4: "SourceShards shard0 = source_shard0 # []" by (simp add: shard0_def)
  have h5: "map (regexp_Compile read_failure_cluster) (ss_Tables source_shard0) = map Inr [literal ''user'']"
    by (simp add: read_failure_cluster_def cluster_def source_shard0_def)
  have r: "recorded read_failure_cluster ready_worker td = []" for td
    by (simp add: recorded_def diff_table_def read_failure_cluster_def cluster_def Let_def eff_defs)
  have f: "filter (\<lambda>td. MatchString (literal ''user'') (Name td)) (TableDefinitions src_schema) =
           [tbl ''user'', tbl ''user_extra'']"
    by (simp add: src_schema_def tbl_def literal_user)
  have ds: "DiffSchema read_failure_cluster dst_schema
              (src_schema\<lparr>TableDefinitions := [tbl ''user'', tbl ''user_extra'']\<rparr>) = []"
    by (simp add: read_failure_cluster_def cluster_def dst_schema_def)
  have c: "concat (map (recorded read_failure_cluster ready_worker) tds) = []" for tds
    by (simp add: r)
  have g: "differ_Go read_failure_cluster (RowDiffer 0) = Inl (External ''read failed'')"
    by (simp add: read_failure_cluster_def)
  from diff_compiled(1) [OF h1 h2 h3 h4 h5]
  have "fst (diff read_failure_cluster ready_worker) = Nil"
    by (simp add: f ds c outcome_of_def rec_Error_def)
  with g r show ?thesis by simp
qed

subsection \<open>The schema check\<close>

text \<open>
  Claim C7, as amended. Whatever the schema check reports, the goroutine of every table
  of the destination schema starts, once each. When the check reports differences, they
  are logged in one warning and they stay in the recorder: the phase returns them, in
  front of what the tables recorded, as a non-nil error after all tables were attempted.
\<close>

theorem schema_mismatch_not_early:
  assumes "GetSchema env (destinationAlias w) (excludeTables w) = Inr dst"
      and "GetSchema env (sourceAlias w) (excludeTables w) = Inr src"
      and "shardInfo w = Some si" and "SourceShards si = ss # rest"
      and "map (regexp_Compile env) (ss_Tables ss) = map Inr res"
  shows "lines LInfo ''Starting the diff on table %v'' (trace (snd (diff env w))) =
           lines LInfo ''Starting the diff on table %v'' (trace w) @
           map (\<lambda>td. [ArgStr (Name td)]) (TableDefinitions dst) \<and>
         (\<forall>errs. errs \<noteq> [] \<longrightarrow>
            DiffSchema env dst
              (src\<lparr>TableDefinitions :=
                 filter (\<lambda>td. \<exists>re\<in>set res. MatchString re (Name td)) (TableDefinitions src)\<rparr>) = errs \<longrightarrow>
            lines LWarning ''Different schemas: %v'' (trace (snd (diff env w))) =
              lines LWarning ''Different schemas: %v'' (trace w) @ [[ArgErr (Aggregate errs)]] \<and>
            fst (diff env w) =
              Err (Aggregate (errs @ concat (map (recorded env w) (TableDefinitions dst)))))"
  using diff_compiled(1,3) [OF assms] diff_compiled(5) [OF assms, of "''Different schemas: %v''"]
  by (auto simp add: outcome_of_def rec_Error_def)

theorem schema_mismatch_not_early_witness:
  "GetSchema mismatch_cluster (destinationAlias ready_worker) (excludeTables ready_worker) = Inr dst_schema \<and>
   GetSchema mismatch_cluster (sourceAlias ready_worker) (excludeTables ready_worker) = Inr src_schema \<and>
   shardInfo ready_worker = Some shard0 \<and> SourceShards shard0 = source_shard0 # [] \<and>
   map (regexp_Compile mismatch_cluster) (ss_Tables source_shard0) = map Inr [literal ''user''] \<and>
   lines LInfo ''Starting the diff on table %v'' (trace (snd (diff mismatch_cluster ready_worker))) =
     [[ArgStr ''user''], [ArgStr ''user_extra'']] \<and>
   lines LWarning ''Different schemas: %v'' (trace (snd (diff mismatch_cluster ready_worker))) =
     [[ArgErr (Aggregate [External ''schemas differ''])]] \<and>
   fst (diff mismatch_cluster ready_worker) = Err (Aggregate [External ''schemas differ''])"
proof -
  have h1: "GetSchema mismatch_cluster (destinationAlias ready_worker) (excludeTables ready_worker) = Inr dst_schema"
    by (simp add: mismatch_cluster_def cluster_def ready_fields alias_distinct)
  have h2: "GetSchema mismatch_cluster (sourceAlias ready_worker) (excludeTables ready_worker) = Inr src_schema"
    by (simp add: mismatch_cluster_def cluster_def ready_fields)
  have h3: "shardInfo ready_worker = Some shard0" by (simp add: ready_fields)
  have h4: "SourceShards shard0 = source_shard0 # []" by (simp add: shard0_def)
  have h5: "map (regexp_Compile mismatch_cluster) (ss_Tables source_shard0) = map Inr [literal ''user'']"
    by (simp add: mismatch_cluster_def cluster_def source_shard0_def)
  have ds: "DiffSchema mismatch_cluster d s = [External ''schemas differ'']" for d s
    by (simp add: mismatch_cluster_def)
  have c: "concat (map (recorded mismatch_cluster ready_worker) tds) = []" for tds
    by (simp add: recorded_def diff_table_def mismatch_cluster_def cluster_def Let_def eff_defs
          HasDifferences_def)
  note T = schema_mismatch_not_early [OF h1 h2 h3 h4 h5]
  from T [THEN conjunct1]
  have st: "lines LInfo ''Starting the diff on table %v'' (trace (snd (diff mismatch_cluster ready_worker))) =
     [[ArgStr ''user''], [ArgStr ''user_extra'']]"
    by (simp add: ready_fields dst_schema_def tbl_def)
  from T [THEN conjunct2, rule_format, of "[External ''schemas differ'']"]
  have "lines LWarning ''Different schemas: %v'' (trace (snd (diff mismatch_cluster ready_worker))) =
     [[ArgErr (Aggregate [External ''schemas differ''])]] \<and>
   fst (diff mismatch_cluster ready_worker) = Err (Aggregate [External ''schemas differ''])"
    by (simp add: ds c ready_fields)
  with st h1 h2 h3 h4 h5 show ?thesis by simp
qed

text \<open>
  Against claim C7 as stated: two runs that differ only in what the schema check reports,
  with every table matching; the one with a schema difference ends in \<open>Error\<close>.
\<close>

theorem schema_mismatch_fails_run:
  "fst (Run cluster worker0) = Nil \<and>
   State (snd (Run cluster worker0)) = WorkerStateDone \<and>
   fst (Run mismatch_cluster worker0) =
     Err (Errorf ''diff() failed: %v'' [ArgErr (Aggregate [External ''schemas differ''])]) \<and>
   State (snd (Run mismatch_cluster worker0)) = WorkerStateError"
  by code_simp

subsection \<open>Run and its cleanup\<close>

lemma run_not_Panicked: "fst (run env w) \<noteq> Panicked"
proof -
  obtain r1 w1 where i: "init env w = (r1, w1)" by (cases "init env w")
  show ?thesis
  proof (cases r1)
    case Panicked
    with i init_not_Panicked [of env w] show ?thesis by simp
  next
    case (Err e)
    with i show ?thesis by (simp add: run_def)
  next
    case Nil
    with i init_Nil obtain si ss where si: "shardInfo w1 = Some si" "SourceShards si = [ss]" by blast
    obtain r2 w2 where f: "findTargets env w1 = (r2, w2)" by (cases "findTargets env w1")
    from f findTargets_frame(2) [of env w1] si have si2: "shardInfo w2 = Some si" by simp
    from f findTargets_not_Panicked [OF si, of env] have r2: "r2 \<noteq> Panicked" by simp
    obtain r3 w3 where s: "synchronizeReplication env w2 = (r3, w3)"
      by (cases "synchronizeReplication env w2")
    from s sync_frame(3) [of env w2] si2 have si3: "shardInfo w3 = Some si" by simp
    from s sync_not_Panicked [OF si2, of env] si(2) have r3: "r3 \<noteq> Panicked" by simp
    from diff_not_Panicked [OF si3, of env] si(2) have r4: "fst (diff env w3) \<noteq> Panicked" by simp
    from i Nil f r2 s r3 r4 show ?thesis
      by (cases r2; cases r3; cases "diff env w3")
         (auto simp add: run_def split: option.splits outcome.splits)
  qed
qed

lemma run_snd:
  "snd (run env w) = snd (init env w) \<or>
   snd (run env w) = snd (findTargets env (snd (init env w))) \<or>
   snd (run env w) = snd (synchronizeReplication env (snd (findTargets env (snd (init env w))))) \<or>
   snd (run env w) =
     snd (diff env (snd (synchronizeReplication env (snd (findTargets env (snd (init env w)))))))"
  by (auto simp add: run_def split: prod.splits outcome.splits option.splits)

lemma run_cleanups: "cleanups (trace (snd (run env w))) = cleanups (trace w)"
  using run_snd [of env w]
  by (auto simp add: diff_frame sync_frame findTargets_frame init_frame)


text \<open>
  Claim C2. \<open>Run\<close> never panics. The inner run leaves the recorded cleaner runs as they
  were; right after it, \<open>Run\<close> enters \<open>CleanUp\<close> and runs the cleaner once, with every
  action the inner run left, and empties it; nothing after that runs it again. An error
  of the inner run is returned unchanged, a failure of the cleanup being then only
  logged; without an inner error the cleanup's own result is returned. \<open>Run\<close> returns
  nil exactly when the terminal state is \<open>Done\<close>.
\<close>

theorem Run_cleans_up_once:
  "fst (Run env w) \<noteq> Panicked \<and>
   cleanups (trace (snd (run env (emit ResetVarsEv w)))) = cleanups (trace w) \<and>
   (\<exists>rest. trace (snd (Run env w)) =
             trace (snd (run env (emit ResetVarsEv w))) @
             [SetStateEv WorkerStateCleanUp, CleanUpEv (cleaner (snd (run env (emit ResetVarsEv w))))] @ rest \<and>
           cleanups rest = []) \<and>
   cleaner (snd (Run env w)) = [] \<and>
   (\<forall>e. fst (run env (emit ResetVarsEv w)) = Err e \<longrightarrow> fst (Run env w) = Err e) \<and>
   (\<forall>e ce. fst (run env (emit ResetVarsEv w)) = Err e \<longrightarrow>
      CleanUp env (cleaner (snd (run env (emit ResetVarsEv w)))) = Some ce \<longrightarrow>
      lines LError ''CleanUp failed in addition to job error: %v'' (trace (snd (Run env w))) =
        lines LError ''CleanUp failed in addition to job error: %v''
          (trace (snd (run env (emit ResetVarsEv w)))) @ [[ArgErr ce]]) \<and>
   (fst (run env (emit ResetVarsEv w)) = Nil \<longrightarrow>
      fst (Run env w) = outcome_of (CleanUp env (cleaner (snd (run env (emit ResetVarsEv w)))))) \<and>
   (fst (Run env w) = Nil \<longleftrightarrow> State (snd (Run env w)) = WorkerStateDone)"
proof -
  obtain r w' where r: "run env (emit ResetVarsEv w) = (r, w')"
    by (cases "run env (emit ResetVarsEv w)")
  with run_not_Panicked [of env "emit ResetVarsEv w"] have np: "r \<noteq> Panicked" by simp
  from r run_cleanups [of env "emit ResetVarsEv w"] have c: "cleanups (trace w') = cleanups (trace w)"
    by (simp add: emit_def)
  show ?thesis
  proof (cases r)
    case Panicked
    with np show ?thesis by simp
  next
    case Nil
    with r c show ?thesis
      by (cases "CleanUp env (cleaner w')") (simp_all add: Run_def Let_def eff_defs outcome_of_def)
  next
    case (Err e)
    with r c show ?thesis
      by (cases "CleanUp env (cleaner w')") (simp_all add: Run_def Let_def eff_defs outcome_of_def)
  qed
qed

theorem Run_cleans_up_once_witness:
  "fst (run double_failure_cluster (emit ResetVarsEv worker0)) = Err resume_error \<and>
   CleanUp double_failure_cluster (cleaner (snd (run double_failure_cluster (emit ResetVarsEv worker0)))) =
     Some (Aggregate [External ''cannot start slave'']) \<and>
   fst (Run double_failure_cluster worker0) = Err resume_error \<and>
   lines LError ''CleanUp failed in addition to job error: %v''
     (trace (snd (Run double_failure_cluster worker0))) =
     [[ArgErr (Aggregate [External ''cannot start slave''])]] \<and>
   State (snd (Run double_failure_cluster worker0)) = WorkerStateError \<and>
   fst (run cleanup_failure_cluster (emit ResetVarsEv worker0)) = Nil \<and>
   fst (Run cleanup_failure_cluster worker0) = Err (Aggregate [External ''cannot start slave''])"
proof -
  have h1: "fst (run double_failure_cluster (emit ResetVarsEv worker0)) = Err resume_error"
    by code_simp
  have h2: "CleanUp double_failure_cluster
              (cleaner (snd (run double_failure_cluster (emit ResetVarsEv worker0)))) =
            Some (Aggregate [External ''cannot start slave''])"
    by code_simp
  have h3: "lines LError ''CleanUp failed in addition to job error: %v''
              (trace (snd (run double_failure_cluster (emit ResetVarsEv worker0)))) = []"
    by code_simp
  have h4: "fst (run cleanup_failure_cluster (emit ResetVarsEv worker0)) = Nil"
    by code_simp
  have h5: "CleanUp cleanup_failure_cluster
              (cleaner (snd (run cleanup_failure_cluster (emit ResetVarsEv worker0)))) =
            Some (Aggregate [External ''cannot start slave''])"
    by code_simp
  note T = Run_cleans_up_once [of double_failure_cluster worker0]
  note U = Run_cleans_up_once [of cleanup_failure_cluster worker0]
  from T h1 have a: "fst (Run double_failure_cluster worker0) = Err resume_error" by blast
  from T h1 h2 have "lines LError ''CleanUp failed in addition to job error: %v''
     (trace (snd (Run double_failure_cluster worker0))) =
     lines LError ''CleanUp failed in addition to job error: %v''
       (trace (snd (run double_failure_cluster (emit ResetVarsEv worker0)))) @
     [[ArgErr (Aggregate [External ''cannot start slave''])]]" by blast
  with h3 have b: "lines LError ''CleanUp failed in addition to job error: %v''
     (trace (snd (Run double_failure_cluster worker0))) =
     [[ArgErr (Aggregate [External ''cannot start slave''])]]" by simp
  have c: "State (snd (Run double_failure_cluster worker0)) = WorkerStateError" by code_simp
  from U h4 h5 have d: "fst (Run cleanup_failure_cluster worker0) = Err (Aggregate [External ''cannot start slave''])"
    by (simp add: outcome_of_def)
  from h1 h2 a b c h4 d show ?thesis by blast
qed


lemma findTargets_Nil:
  assumes "findTargets env w = (Nil, w')"
  shows "cleaner w' =
           cleaner w @
           [\<lparr>ca_name = ChangeSlaveTypeActionName, ca_target = destinationAlias w',
             ca_action = ChangeSlaveTypeAction TYPE_RDONLY\<rparr>,
            \<lparr>ca_name = ChangeSlaveTypeActionName, ca_target = sourceAlias w',
             ca_action = ChangeSlaveTypeAction TYPE_RDONLY\<rparr>]"
  using assms
  by (auto simp add: findTargets_def FindWorkerTablet_def RecordChangeSlaveTypeAction_def Record_def
        Let_def eff_defs split: sum.splits option.splits list.splits prod.splits)

text \<open>
  Claim C8. When \<open>init\<close> and \<open>findTargets\<close> succeed, the first cancellation check
  finds nothing and the second finds the context done, \<open>Run\<close> returns the context's
  error itself, ends in \<open>Error\<close>, goes through the states \<open>Init\<close>, \<open>FindTargets\<close>,
  \<open>CleanUp\<close>, \<open>Error\<close> only (never \<open>SyncReplication\<close> or \<open>Diff\<close>), issues no
  barrier call, and runs the cleaner once, with the actions found there before and the
  two that \<open>findTargets\<close> pushed.
\<close>

theorem cancel_after_findTargets:
  assumes "init env (emit ResetVarsEv w) = (Nil, w1)" and "checkDone env 0 = None"
      and "findTargets env w1 = (Nil, w2)" and "checkDone env 1 = Some e"
  shows "fst (Run env w) = Err e \<and>
         State (snd (Run env w)) = WorkerStateError \<and>
         states (trace (snd (Run env w))) =
           states (trace w) @
           [WorkerStateInit, WorkerStateFindTargets, WorkerStateCleanUp, WorkerStateError] \<and>
         calls (trace (snd (Run env w))) = calls (trace w) \<and>
         cleanups (trace (snd (Run env w))) =
           cleanups (trace w) @
           [cleaner w @
            [\<lparr>ca_name = ChangeSlaveTypeActionName, ca_target = destinationAlias w2,
              ca_action = ChangeSlaveTypeAction TYPE_RDONLY\<rparr>,
             \<lparr>ca_name = ChangeSlaveTypeActionName, ca_target = sourceAlias w2,
              ca_action = ChangeSlaveTypeAction TYPE_RDONLY\<rparr>]]"
proof -
  from assms have r: "run env (emit ResetVarsEv w) = (Err e, w2)" by (simp add: run_def)
  from assms(1) init_frame(1,4) [of env "emit ResetVarsEv w"]
  have 1: "trace w1 = trace w @ [ResetVarsEv, SetStateEv WorkerStateInit]" "cleaner w1 = cleaner w"
    by (simp_all add: emit_def)
  from assms(3) findTargets_frame(1) [of env w1] 1
  have 2: "trace w2 = trace w @ [ResetVarsEv, SetStateEv WorkerStateInit, SetStateEv WorkerStateFindTargets]"
    by simp
  from findTargets_Nil [OF assms(3)] 1(2)
  have 3: "cleaner w2 = cleaner w @
           [\<lparr>ca_name = ChangeSlaveTypeActionName, ca_target = destinationAlias w2,
             ca_action = ChangeSlaveTypeAction TYPE_RDONLY\<rparr>,
            \<lparr>ca_name = ChangeSlaveTypeActionName, ca_target = sourceAlias w2,
             ca_action = ChangeSlaveTypeAction TYPE_RDONLY\<rparr>]" by simp
  from r 2 3 show ?thesis
    by (cases "CleanUp env (cleaner w2)") (simp_all add: Run_def Let_def eff_defs)
qed

theorem cancel_after_findTargets_witness:
  "fst (init cancelled_cluster (emit ResetVarsEv worker0)) = Nil \<and>
   checkDone cancelled_cluster 0 = None \<and>
   fst (findTargets cancelled_cluster (snd (init cancelled_cluster (emit ResetVarsEv worker0)))) = Nil \<and>
   checkDone cancelled_cluster 1 = Some (External ''context canceled'') \<and>
   fst (Run cancelled_cluster worker0) = Err (External ''context canceled'') \<and>
   State (snd (Run cancelled_cluster worker0)) = WorkerStateError \<and>
   states (trace (snd (Run cancelled_cluster worker0))) =
     [WorkerStateInit, WorkerStateFindTargets, WorkerStateCleanUp, WorkerStateError] \<and>
   calls (trace (snd (Run cancelled_cluster worker0))) = [] \<and>
   length (cleanups (trace (snd (Run cancelled_cluster worker0)))) = 1"
proof -
  let ?w1 = "snd (init cancelled_cluster (emit ResetVarsEv worker0))"
  let ?w2 = "snd (findTargets cancelled_cluster ?w1)"
  have i: "fst (init cancelled_cluster (emit ResetVarsEv worker0)) = Nil" by code_simp
  have f: "fst (findTargets cancelled_cluster ?w1) = Nil" by code_simp
  have c0: "checkDone cancelled_cluster 0 = None"
    and c1: "checkDone cancelled_cluster 1 = Some (External ''context canceled'')"
    by (simp_all add: checkDone_def cancelled_cluster_def)
  from i have h1: "init cancelled_cluster (emit ResetVarsEv worker0) = (Nil, ?w1)"
    by (metis prod.collapse)
  from f have h3: "findTargets cancelled_cluster ?w1 = (Nil, ?w2)"
    by (metis prod.collapse)
  have t: "trace worker0 = []" "cleaner worker0 = []"
    by (simp_all add: worker0_def NewVerticalSplitDiffWorker_def)
  from cancel_after_findTargets [OF h1 c0 h3 c1] i f c0 c1 t show ?thesis by simp
qed

subsection \<open>The replication barrier\<close>

lemma FindBlpPositionById_Inr:
  "FindBlpPositionById bl i = Inr pos \<Longrightarrow> pos \<in> set bl \<and> bp_Uid pos = i"
  by (induction bl) (auto split: if_splits)

lemma step5_Nil:
  "sync_step5 env si mi w = (Nil, w') \<Longrightarrow> calls (trace w') = calls (trace w) @ [StartBlpCall mi]"
  by (auto simp add: sync_step5_def Let_def eff_defs split: sync_splits)

lemma step4_Nil:
  assumes "sync_step4 env si mi mp w = (Nil, w')"
  shows "\<exists>dt d. GetTablet env (destinationAlias w) = Inr dt \<and> StopSlaveMinimum env dt mp = Inr d \<and>
           calls (trace w') = calls (trace w) @ [StopSlaveMinimumCall dt mp, StartBlpCall mi]"
  using assms
  by (auto simp add: sync_step4_def Let_def eff_defs split: sync_splits dest!: step5_Nil)

lemma step3_Nil:
  assumes "sync_step3 env si mi l w = (Nil, w')"
  shows "\<exists>mp dt d. RunBlpUntil env mi l = Inr mp \<and>
           GetTablet env (destinationAlias w) = Inr dt \<and> StopSlaveMinimum env dt mp = Inr d \<and>
           calls (trace w') =
             calls (trace w) @ [RunBlpUntilCall mi l, StopSlaveMinimumCall dt mp, StartBlpCall mi]"
  using assms
  by (auto simp add: sync_step3_def Let_def eff_defs split: sync_splits dest!: step4_Nil)

lemma step2_Nil:
  assumes "sync_step2 env si mi bl w = (Nil, w')"
  shows "\<exists>ss rest pos st sa mp dt d. SourceShards si = ss # rest \<and>
           FindBlpPositionById bl (ss_Uid ss) = Inr pos \<and>
           GetTablet env (sourceAlias w) = Inr st \<and>
           StopSlaveMinimum env st (bp_Position pos) = Inr sa \<and>
           RunBlpUntil env mi [\<lparr>bp_Uid = ss_Uid ss, bp_Position = sa\<rparr>] = Inr mp \<and>
           GetTablet env (destinationAlias w) = Inr dt \<and> StopSlaveMinimum env dt mp = Inr d \<and>
           calls (trace w') =
             calls (trace w) @
             [StopSlaveMinimumCall st (bp_Position pos),
              RunBlpUntilCall mi [\<lparr>bp_Uid = ss_Uid ss, bp_Position = sa\<rparr>],
              StopSlaveMinimumCall dt mp, StartBlpCall mi]"
  using assms
  by (auto simp add: sync_step2_def Let_def eff_defs split: sync_splits dest!: step3_Nil)

lemma sync_Nil:
  assumes "synchronizeReplication env w = (Nil, w')"
  shows "\<exists>si ss rest mi bl pos st sa mp dt d.
           shardInfo w = Some si \<and> SourceShards si = ss # rest \<and>
           GetTablet env (MasterAlias si) = Inr mi \<and> StopBlp env mi = Inr bl \<and>
           FindBlpPositionById bl (ss_Uid ss) = Inr pos \<and>
           GetTablet env (sourceAlias w) = Inr st \<and>
           StopSlaveMinimum env st (bp_Position pos) = Inr sa \<and>
           RunBlpUntil env mi [\<lparr>bp_Uid = ss_Uid ss, bp_Position = sa\<rparr>] = Inr mp \<and>
           GetTablet env (destinationAlias w) = Inr dt \<and> StopSlaveMinimum env dt mp = Inr d \<and>
           calls (trace w') =
             calls (trace w) @
             [StopBlpCall mi, StopSlaveMinimumCall st (bp_Position pos),
              RunBlpUntilCall mi [\<lparr>bp_Uid = ss_Uid ss, bp_Position = sa\<rparr>],
              StopSlaveMinimumCall dt mp, StartBlpCall mi]"
  using assms
  by (auto simp add: synchronizeReplication_def Let_def eff_defs split: sync_splits dest!: step2_Nil)

text \<open>
  Claim C3. If \<^verbatim>\<open>StopSlaveMinimum\<close> only ever answers with a position at least its
  minimum, a successful \<open>synchronizeReplication\<close> made exactly five calls, one after
  the other: it paused the master, stopped the source tablet at a position at least the
  master's paused position for the source shard's uid, ran the master up to that stop
  position, stopped the destination tablet at a position at least the position the
  master reported then, and resumed the master. Every call waits for the answer of the
  one before, whatever the collaborators answer and however long they take.
\<close>

theorem barrier_positions:
  assumes "\<forall>t p q. StopSlaveMinimum env t p = Inr q \<longrightarrow> p \<le> q"
      and "synchronizeReplication env w = (Nil, w')"
  shows "\<exists>si ss rest mi bl pos st sa mp dt d.
           shardInfo w = Some si \<and> SourceShards si = ss # rest \<and>
           GetTablet env (MasterAlias si) = Inr mi \<and> StopBlp env mi = Inr bl \<and>
           pos \<in> set bl \<and> bp_Uid pos = ss_Uid ss \<and>
           GetTablet env (sourceAlias w) = Inr st \<and>
           StopSlaveMinimum env st (bp_Position pos) = Inr sa \<and> bp_Position pos \<le> sa \<and>
           RunBlpUntil env mi [\<lparr>bp_Uid = ss_Uid ss, bp_Position = sa\<rparr>] = Inr mp \<and>
           GetTablet env (destinationAlias w) = Inr dt \<and>
           StopSlaveMinimum env dt mp = Inr d \<and> mp \<le> d \<and>
           calls (trace w') =
             calls (trace w) @
             [StopBlpCall mi, StopSlaveMinimumCall st (bp_Position pos),
              RunBlpUntilCall mi [\<lparr>bp_Uid = ss_Uid ss, bp_Position = sa\<rparr>],
              StopSlaveMinimumCall dt mp, StartBlpCall mi]"
proof -
  from sync_Nil [OF assms(2)] obtain si ss rest mi bl pos st sa mp dt d where *:
    "shardInfo w = Some si" "SourceShards si = ss # rest"
    "GetTablet env (MasterAlias si) = Inr mi" "StopBlp env mi = Inr bl"
    "FindBlpPositionById bl (ss_Uid ss) = Inr pos"
    "GetTablet env (sourceAlias w) = Inr st"
    "StopSlaveMinimum env st (bp_Position pos) = Inr sa"
    "RunBlpUntil env mi [\<lparr>bp_Uid = ss_Uid ss, bp_Position = sa\<rparr>] = Inr mp"
    "GetTablet env (destinationAlias w) = Inr dt" "StopSlaveMinimum env dt mp = Inr d"
    "calls (trace w') =
       calls (trace w) @
       [StopBlpCall mi, StopSlaveMinimumCall st (bp_Position pos),
        RunBlpUntilCall mi [\<lparr>bp_Uid = ss_Uid ss, bp_Position = sa\<rparr>],
        StopSlaveMinimumCall dt mp, StartBlpCall mi]"
    by blast
  from assms(1) *(7) have 1: "bp_Position pos \<le> sa" by blast
  from assms(1) *(10) have 2: "mp \<le> d" by blast
  from FindBlpPositionById_Inr [OF *(5)] have 3: "pos \<in> set bl" "bp_Uid pos = ss_Uid ss" by simp_all
  from * 1 2 3 show ?thesis by blast
qed

theorem barrier_positions_witness:
  "StopSlaveMinimum cluster \<lparr>Alias = src_alias\<rparr> 100 = Inr 105 \<and>
   StopSlaveMinimum cluster \<lparr>Alias = dst_alias\<rparr> 230 = Inr 235 \<and>
   fst (synchronizeReplication cluster found_worker) = Nil \<and>
   calls (trace (snd (synchronizeReplication cluster found_worker))) =
     [StopBlpCall master_info, StopSlaveMinimumCall \<lparr>Alias = src_alias\<rparr> 100,
      RunBlpUntilCall master_info [\<lparr>bp_Uid = 7, bp_Position = 105\<rparr>],
      StopSlaveMinimumCall \<lparr>Alias = dst_alias\<rparr> 230, StartBlpCall master_info]"
proof -
  have c: "\<forall>t p q. StopSlaveMinimum cluster t p = Inr q \<longrightarrow> p \<le> q"
    by (auto simp add: cluster_def)
  have f: "fst (synchronizeReplication cluster found_worker) = Nil" by code_simp
  then have ok: "synchronizeReplication cluster found_worker =
                   (Nil, snd (synchronizeReplication cluster found_worker))"
    by (metis prod.collapse)
  have s: "StopSlaveMinimum cluster \<lparr>Alias = src_alias\<rparr> 100 = Inr 105"
          "StopSlaveMinimum cluster \<lparr>Alias = dst_alias\<rparr> 230 = Inr 235"
    by (simp_all add: cluster_def)
  have k: "calls (trace (snd (synchronizeReplication cluster found_worker))) =
     [StopBlpCall master_info, StopSlaveMinimumCall \<lparr>Alias = src_alias\<rparr> 100,
      RunBlpUntilCall master_info [\<lparr>bp_Uid = 7, bp_Position = 105\<rparr>],
      StopSlaveMinimumCall \<lparr>Alias = dst_alias\<rparr> 230, StartBlpCall master_info]"
    by code_simp
  from barrier_positions [OF c ok] s f k show ?thesis by simp
qed

subsection \<open>The final resume\<close>

lemma blp_Record:
  "n \<noteq> StartBlpActionName \<Longrightarrow> blp_actions m (Record n t a cl) = blp_actions m cl"
  by (simp add: blp_actions_def Record_def is_action_def)

lemma blp_RecordStartSlave [simp]:
  "blp_actions m (RecordStartSlaveAction t cl) = blp_actions m cl"
  by (simp add: RecordStartSlaveAction_def blp_Record StartSlaveActionName_def StartBlpActionName_def)

lemma blp_RecordChangeSlaveType [simp]:
  "blp_actions m (RecordChangeSlaveTypeAction a ty cl) = blp_actions m cl"
  by (simp add: RecordChangeSlaveTypeAction_def blp_Record ChangeSlaveTypeActionName_def
        StartBlpActionName_def)

lemma blp_RecordStartBlp [simp]:
  "blp_actions m (RecordStartBlpAction mi cl) = blp_actions m cl + (if Alias mi = m then 1 else 0)"
  by (simp add: RecordStartBlpAction_def blp_actions_def Record_def is_action_def)

lemma blp_SetChangeSlaveType:
  "SetChangeSlaveType t ty cl = Some cl' \<Longrightarrow> blp_actions m cl' = blp_actions m cl"
  by (induction cl arbitrary: cl') (auto simp add: blp_actions_def is_action_def split: if_splits)

lemma blp_Remove_Some:
  "RemoveActionByName StartBlpActionName m cl = Some cl' \<Longrightarrow> blp_actions m cl' = blp_actions m cl - 1"
  by (induction cl arbitrary: cl') (auto simp add: blp_actions_def split: if_splits)

lemma blp_Remove_None:
  "RemoveActionByName StartBlpActionName m cl = None \<Longrightarrow> blp_actions m cl = 0"
  by (induction cl) (auto simp add: blp_actions_def split: if_splits)

lemma step5_reach:
  assumes "sync_step5 env si mi w = (r, w')"
  shows "calls (trace w') = calls (trace w) @ [StartBlpCall mi] \<and>
         blp_actions (MasterAlias si) (cleaner w') = blp_actions (MasterAlias si) (cleaner w) - 1 \<and>
         r = resume_outcome env si mi"
  using assms
  by (auto simp add: sync_step5_def resume_outcome_def Let_def eff_defs blp_Remove_Some blp_Remove_None
        split: sync_splits)

lemma step4_reach:
  assumes "sync_step4 env si mi mp w = (r, w')"
      and "StartBlpCall x \<in> set (calls (trace w'))" and "StartBlpCall x \<notin> set (calls (trace w))"
  shows "x = mi \<and>
         blp_actions (MasterAlias si) (cleaner w') = blp_actions (MasterAlias si) (cleaner w) - 1 \<and>
         r = resume_outcome env si mi"
  using assms
  by (auto simp add: sync_step4_def Let_def eff_defs blp_SetChangeSlaveType
        split: sync_splits dest!: step5_reach)

lemma step3_reach:
  assumes "sync_step3 env si mi l w = (r, w')"
      and "StartBlpCall x \<in> set (calls (trace w'))" and "StartBlpCall x \<notin> set (calls (trace w))"
  shows "x = mi \<and>
         blp_actions (MasterAlias si) (cleaner w') = blp_actions (MasterAlias si) (cleaner w) - 1 \<and>
         r = resume_outcome env si mi"
  using assms
  by (auto simp add: sync_step3_def Let_def eff_defs split: sync_splits dest!: step4_reach)

lemma step2_reach:
  assumes "sync_step2 env si mi bl w = (r, w')"
      and "StartBlpCall x \<in> set (calls (trace w'))" and "StartBlpCall x \<notin> set (calls (trace w))"
  shows "x = mi \<and>
         blp_actions (MasterAlias si) (cleaner w') = blp_actions (MasterAlias si) (cleaner w) - 1 \<and>
         r = resume_outcome env si mi"
  using assms
  by (auto simp add: sync_step2_def Let_def eff_defs blp_SetChangeSlaveType
        split: sync_splits dest!: step3_reach)

lemma sync_reach:
  assumes "synchronizeReplication env w = (r, w')"
      and "StartBlpCall x \<in> set (calls (trace w'))" and "StartBlpCall x \<notin> set (calls (trace w))"
  shows "\<exists>si. shardInfo w = Some si \<and> GetTablet env (MasterAlias si) = Inr x \<and>
           blp_actions (MasterAlias si) (cleaner w') =
             blp_actions (MasterAlias si) (cleaner w) + (if Alias x = MasterAlias si then 1 else 0) - 1 \<and>
           r = resume_outcome env si x"
  using assms
  by (auto simp add: synchronizeReplication_def Let_def eff_defs split: sync_splits dest!: step2_reach)

lemma init_rel:
  "init env w = (r, w') \<Longrightarrow> calls (trace w') = calls (trace w) \<and> cleaner w' = cleaner w"
  using init_frame(1,4) [of env w] by simp

lemma findTargets_rel:
  "findTargets env w = (r, w') \<Longrightarrow>
   calls (trace w') = calls (trace w) \<and> blp_actions m (cleaner w') = blp_actions m (cleaner w)"
  by (auto simp add: findTargets_def FindWorkerTablet_def Let_def eff_defs
        split: sum.splits option.splits list.splits prod.splits)

lemma diff_rel: "diff env w = (r, w') \<Longrightarrow> calls (trace w') = calls (trace w)"
  using diff_frame(3) [of env w] by simp

lemma run_reach:
  assumes "run env w = (r, w')" and "c \<in> set (calls (trace w'))" and "c \<notin> set (calls (trace w))"
  shows "\<exists>w1 w2 r3 w3. init env w = (Nil, w1) \<and> findTargets env w1 = (Nil, w2) \<and>
           synchronizeReplication env w2 = (r3, w3) \<and>
           c \<in> set (calls (trace w3)) \<and> c \<notin> set (calls (trace w2)) \<and>
           (\<forall>e. r3 = Err e \<longrightarrow>
              r = Err (Errorf ''synchronizeReplication() failed: %v'' [ArgErr e]) \<and> w' = w3)"
proof -
  obtain r1 w1 where i: "init env w = (r1, w1)" by (cases "init env w")
  from init_rel [OF i] have c1: "calls (trace w1) = calls (trace w)" by simp
  obtain r2 w2 where f: "findTargets env w1 = (r2, w2)" by (cases "findTargets env w1")
  from findTargets_rel [OF f] c1 have c2: "calls (trace w2) = calls (trace w)" by simp
  obtain r3 w3 where s: "synchronizeReplication env w2 = (r3, w3)"
    by (cases "synchronizeReplication env w2")
  obtain r4 w4 where d: "diff env w3 = (r4, w4)" by (cases "diff env w3")
  from diff_rel [OF d] have c4: "calls (trace w4) = calls (trace w3)" by simp
  have r1: "r1 = Nil"
    using assms i c1 by (cases r1) (auto simp add: run_def)
  have k0: "checkDone env 0 = None"
    using assms i r1 c1 by (cases "checkDone env 0") (auto simp add: run_def)
  have r2: "r2 = Nil"
    using assms i r1 k0 f c2 by (cases r2) (auto simp add: run_def)
  have k1: "checkDone env 1 = None"
    using assms i r1 k0 f r2 c2 by (cases "checkDone env 1") (auto simp add: run_def)
  have "c \<in> set (calls (trace w3))"
    using assms i r1 k0 f r2 k1 s d c4
    by (cases r3; cases "checkDone env 2"; cases r4) (auto simp add: run_def)
  moreover have "r = Err (Errorf ''synchronizeReplication() failed: %v'' [ArgErr e]) \<and> w' = w3"
    if "r3 = Err e" for e
    using assms(1) i r1 k0 f r2 k1 s that by (simp add: run_def)
  ultimately show ?thesis using i r1 f r2 s c2 assms(3) by auto
qed

lemma Run_calls: "calls (trace (snd (Run env w))) = calls (trace (snd (run env (emit ResetVarsEv w))))"
  by (cases "run env (emit ResetVarsEv w)")
     (auto simp add: Run_def Let_def eff_defs split: outcome.splits option.splits)

text \<open>
  Claim C9. Step 5 leaves the cleaner without the resume action of the master whatever
  \<^verbatim>\<open>StartBlp\<close> answered: the removal comes before the answer is looked at. So when
  a run reaches the final resume of a master whose record carries the alias it was read
  under, and the resume fails, \<open>Run\<close> returns that failure, wrapped by the step and by
  the phase, and the one cleanup it then runs has no action to resume filtered
  replication on that master.
\<close>

theorem resume_failure_drops_compensation:
  assumes "StartBlpCall mi \<notin> set (calls (trace w))"
      and "StartBlpCall mi \<in> set (calls (trace (snd (Run env w))))"
      and "StartBlp env mi = Some e"
      and "\<forall>a t. GetTablet env a = Inr t \<longrightarrow> Alias t = a"
      and "blp_actions (Alias mi) (cleaner w) = 0"
  shows "cleaner (snd (sync_step5 env si x v)) =
           (case RemoveActionByName StartBlpActionName (MasterAlias si) (cleaner v) of
              None \<Rightarrow> cleaner v | Some cl \<Rightarrow> cl) \<and>
         fst (Run env w) =
           Err (Errorf ''synchronizeReplication() failed: %v''
                  [ArgErr (Errorf ''StartBlp on %v failed: %v'' [ArgAlias (Alias mi), ArgErr e])]) \<and>
         (\<exists>cl. cleanups (trace (snd (Run env w))) = cleanups (trace w) @ [cl] \<and>
               blp_actions (Alias mi) cl = 0)"
proof -
  have 0: "cleaner (snd (sync_step5 env si x v)) =
           (case RemoveActionByName StartBlpActionName (MasterAlias si) (cleaner v) of
              None \<Rightarrow> cleaner v | Some cl \<Rightarrow> cl)"
    by (simp add: sync_step5_def Let_def eff_defs split: option.splits)
  obtain r w' where r: "run env (emit ResetVarsEv w) = (r, w')"
    by (cases "run env (emit ResetVarsEv w)")
  from assms(2) r have in': "StartBlpCall mi \<in> set (calls (trace w'))" by (simp add: Run_calls)
  from assms(1) have out: "StartBlpCall mi \<notin> set (calls (trace (emit ResetVarsEv w)))"
    by (simp add: emit_def)
  from run_reach [OF r in' out] obtain w1 w2 r3 w3 where p:
    "init env (emit ResetVarsEv w) = (Nil, w1)" "findTargets env w1 = (Nil, w2)"
    "synchronizeReplication env w2 = (r3, w3)"
    "StartBlpCall mi \<in> set (calls (trace w3))" "StartBlpCall mi \<notin> set (calls (trace w2))"
    and q: "\<And>e. r3 = Err e \<Longrightarrow>
              r = Err (Errorf ''synchronizeReplication() failed: %v'' [ArgErr e]) \<and> w' = w3"
    by blast
  from sync_reach [OF p(3,4,5)] obtain si' where s:
    "shardInfo w2 = Some si'" "GetTablet env (MasterAlias si') = Inr mi"
    "blp_actions (MasterAlias si') (cleaner w3) =
       blp_actions (MasterAlias si') (cleaner w2) + (if Alias mi = MasterAlias si' then 1 else 0) - 1"
    "r3 = resume_outcome env si' mi"
    by blast
  from assms(4) s(2) have m: "Alias mi = MasterAlias si'" by blast
  from init_rel [OF p(1)] have "cleaner w1 = cleaner w" by (simp add: emit_def)
  with findTargets_rel [OF p(2), of "Alias mi"] assms(5)
  have "blp_actions (Alias mi) (cleaner w2) = 0" by simp
  with s(3) m have b: "blp_actions (Alias mi) (cleaner w3) = 0" by simp
  from s(4) assms(3) m
  have r3: "r3 = Err (Errorf ''StartBlp on %v failed: %v'' [ArgAlias (Alias mi), ArgErr e])"
    by (simp add: resume_outcome_def)
  from q [OF r3] have rr: "r = Err (Errorf ''synchronizeReplication() failed: %v''
                  [ArgErr (Errorf ''StartBlp on %v failed: %v'' [ArgAlias (Alias mi), ArgErr e])])"
    and ww: "w' = w3" by simp_all
  from r run_cleanups [of env "emit ResetVarsEv w"]
  have c: "cleanups (trace w') = cleanups (trace w)" by (simp add: emit_def)
  have 1: "fst (Run env w) = r"
    using r rr by (cases "CleanUp env (cleaner w')") (simp_all add: Run_def Let_def eff_defs)
  have 2: "cleanups (trace (snd (Run env w))) = cleanups (trace w) @ [cleaner w3]"
    using r rr ww c
    by (cases "CleanUp env (cleaner w')") (simp_all add: Run_def Let_def eff_defs)
  from 0 1 2 rr b show ?thesis by simp
qed

theorem resume_failure_drops_compensation_witness:
  "StartBlpCall master_info \<notin> set (calls (trace worker0)) \<and>
   StartBlpCall master_info \<in> set (calls (trace (snd (Run resume_failure_cluster worker0)))) \<and>
   StartBlp resume_failure_cluster master_info = Some (External ''resume failed'') \<and>
   GetTablet resume_failure_cluster master_alias = Inr master_info \<and>
   blp_actions master_alias (cleaner worker0) = 0 \<and>
   fst (Run resume_failure_cluster worker0) = Err resume_error \<and>
   (\<exists>cl. cleanups (trace (snd (Run resume_failure_cluster worker0))) = [cl] \<and>
         blp_actions master_alias cl = 0)"
proof -
  have t: "trace worker0 = []" "cleaner worker0 = []"
    by (simp_all add: worker0_def NewVerticalSplitDiffWorker_def)
  have h1: "StartBlpCall master_info \<notin> set (calls (trace worker0))" using t by simp
  have h2: "StartBlpCall master_info \<in> set (calls (trace (snd (Run resume_failure_cluster worker0))))"
    by code_simp
  have h3: "StartBlp resume_failure_cluster master_info = Some (External ''resume failed'')"
    by (simp add: resume_failure_cluster_def)
  have h4: "\<forall>a t. GetTablet resume_failure_cluster a = Inr t \<longrightarrow> Alias t = a"
    by (auto simp add: resume_failure_cluster_def cluster_def)
  have g: "GetTablet resume_failure_cluster master_alias = Inr master_info"
    by (simp add: resume_failure_cluster_def cluster_def master_info_def)
  have a: "Alias master_info = master_alias" by (simp add: master_info_def)
  have h5: "blp_actions (Alias master_info) (cleaner worker0) = 0"
    using t by (simp add: blp_actions_def)
  note T = resume_failure_drops_compensation
             [where si = shard0 and x = master_info and v = ready_worker, OF h1 h2 h3 h4 h5]
  from T [THEN conjunct2] h1 h2 h3 g h5 t a show ?thesis
    by (simp add: resume_error_def)
qed

end
